theory Spec2Isabelle
  imports Complex_Main "HOL-Library.Multiset"
begin

section \<open>JavaScript numbers\<close>

text \<open>
  The statistics core computes with JavaScript numbers. A number is modelled as one of the
  special values \<open>NaN\<close>, \<open>+Infinity\<close>, \<open>-Infinity\<close>, or a finite real. The special values
  decide the control flow of the code (\<open>x || 0\<close>, \<open>d === 0\<close>, comparisons with \<open>NaN\<close>) and are
  modelled exactly. The profit and the ROI of a backtest run depend on the rounding of
  doubles, so the settlement of bets computes with the double operations \<open>dadd\<close>, \<open>dsub\<close>,
  \<open>dmul\<close> and \<open>ddiv\<close> below, and the literal \<open>1.91\<close> is the double \<open>rd 1.91\<close>. Everywhere
  else the operations \<open>jadd\<close>, \<open>jsub\<close>, \<open>jmul\<close> and \<open>jdiv\<close> are exact on finite values;
  nothing stated about them depends on rounding. The sign of zero is outside the model.
\<close>

datatype jsnum = NaN | PInf | NInf | Fin real

fun jneg :: "jsnum \<Rightarrow> jsnum" where
  "jneg NaN = NaN"
| "jneg PInf = NInf"
| "jneg NInf = PInf"
| "jneg (Fin a) = Fin (- a)"

fun jadd :: "jsnum \<Rightarrow> jsnum \<Rightarrow> jsnum" where
  "jadd NaN _ = NaN"
| "jadd _ NaN = NaN"
| "jadd PInf NInf = NaN"
| "jadd NInf PInf = NaN"
| "jadd PInf _ = PInf"
| "jadd _ PInf = PInf"
| "jadd NInf _ = NInf"
| "jadd _ NInf = NInf"
| "jadd (Fin a) (Fin b) = Fin (a + b)"

definition jsub :: "jsnum \<Rightarrow> jsnum \<Rightarrow> jsnum" where
  "jsub a b = jadd a (jneg b)"

text \<open>The sign of a number as the multiplication and division rules use it.\<close>

fun jsign :: "jsnum \<Rightarrow> int" where
  "jsign NaN = 0"
| "jsign PInf = 1"
| "jsign NInf = - 1"
| "jsign (Fin a) = (if a < 0 then - 1 else if a = 0 then 0 else 1)"

definition inf_of_sign :: "int \<Rightarrow> jsnum" where
  "inf_of_sign s = (if s < 0 then NInf else if s = 0 then NaN else PInf)"

fun jmul :: "jsnum \<Rightarrow> jsnum \<Rightarrow> jsnum" where
  "jmul NaN _ = NaN"
| "jmul _ NaN = NaN"
| "jmul (Fin a) (Fin b) = Fin (a * b)"
| "jmul a b = inf_of_sign (jsign a * jsign b)"

fun jdiv :: "jsnum \<Rightarrow> jsnum \<Rightarrow> jsnum" where
  "jdiv NaN _ = NaN"
| "jdiv _ NaN = NaN"
| "jdiv (Fin a) (Fin b) = (if b = 0 then inf_of_sign (jsign (Fin a)) else Fin (a / b))"
| "jdiv (Fin a) _ = Fin 0"
| "jdiv a (Fin b) = (if b < 0 then jneg a else a)"
| "jdiv _ _ = NaN"

text \<open>The relational operators \<open><\<close>, \<open>>\<close>, \<open><=\<close>, \<open>>=\<close> and \<open>===\<close>: all false on \<open>NaN\<close>.\<close>

fun jlt :: "jsnum \<Rightarrow> jsnum \<Rightarrow> bool" where
  "jlt NaN _ = False"
| "jlt _ NaN = False"
| "jlt _ NInf = False"
| "jlt PInf _ = False"
| "jlt NInf _ = True"
| "jlt _ PInf = True"
| "jlt (Fin a) (Fin b) = (a < b)"

definition jgt :: "jsnum \<Rightarrow> jsnum \<Rightarrow> bool" where
  "jgt a b = jlt b a"

definition jeq :: "jsnum \<Rightarrow> jsnum \<Rightarrow> bool" where
  "jeq a b = (a \<noteq> NaN \<and> a = b)"

definition jle :: "jsnum \<Rightarrow> jsnum \<Rightarrow> bool" where
  "jle a b = (jlt a b \<or> jeq a b)"

definition jge :: "jsnum \<Rightarrow> jsnum \<Rightarrow> bool" where
  "jge a b = jle b a"

text \<open>Truthiness of a number, and \<open>a || b\<close> on numbers.\<close>

definition truthy :: "jsnum \<Rightarrow> bool" where
  "truthy a = (a \<noteq> NaN \<and> a \<noteq> Fin 0)"

definition jor :: "jsnum \<Rightarrow> jsnum \<Rightarrow> jsnum" where
  "jor a b = (if truthy a then a else b)"

text \<open>\<open>Math.sqrt(x)\<close> and \<open>Math.pow(x, 2)\<close>.\<close>

fun jsqrt :: "jsnum \<Rightarrow> jsnum" where
  "jsqrt NaN = NaN"
| "jsqrt PInf = PInf"
| "jsqrt NInf = NaN"
| "jsqrt (Fin a) = (if a < 0 then NaN else Fin (sqrt a))"

fun jpow2 :: "jsnum \<Rightarrow> jsnum" where
  "jpow2 NaN = NaN"
| "jpow2 (Fin a) = Fin (a * a)"
| "jpow2 _ = PInf"

subsection \<open>Double precision\<close>

text \<open>
  \<open>rd x\<close> is the IEEE 754 double nearest to the real \<open>x\<close>. With \<open>e\<close> the binary exponent of
  \<open>|x|\<close> (not below -1022, where the subnormal range begins) the doubles around \<open>x\<close> are the
  multiples of \<open>2^(e - 52)\<close>; \<open>|x|\<close> is rounded to the nearest multiple, a tie to the even
  one, and a result of \<open>2^1024\<close> or more is an infinity. \<open>dadd\<close>, \<open>dsub\<close>, \<open>dmul\<close> and
  \<open>ddiv\<close> are \<open>+\<close>, \<open>-\<close>, \<open>*\<close> and \<open>/\<close> on doubles: the exact result, rounded.
\<close>

definition pow2 :: "int \<Rightarrow> real" where
  "pow2 k = (if 0 \<le> k then 2 ^ nat k else 1 / 2 ^ nat (- k))"

definition binade :: "real \<Rightarrow> int" where
  "binade a = max \<lfloor>log 2 a\<rfloor> (- 1022)"

definition rne :: "real \<Rightarrow> int" where
  "rne q =
    (let f = \<lfloor>q\<rfloor>; r = q - of_int f
     in if r < 1 / 2 then f else if 1 / 2 < r then f + 1 else if even f then f else f + 1)"

definition rd :: "real \<Rightarrow> jsnum" where
  "rd x =
    (if x = 0 then Fin 0
     else
       (let u = pow2 (binade \<bar>x\<bar> - 52);
            y = of_int (rne (\<bar>x\<bar> / u)) * u
        in if pow2 1024 \<le> y then (if x < 0 then NInf else PInf)
           else Fin (if x < 0 then - y else y)))"

definition dadd :: "jsnum \<Rightarrow> jsnum \<Rightarrow> jsnum" where
  "dadd a b = (case (a, b) of (Fin x, Fin y) \<Rightarrow> rd (x + y) | _ \<Rightarrow> jadd a b)"

definition dsub :: "jsnum \<Rightarrow> jsnum \<Rightarrow> jsnum" where
  "dsub a b = (case (a, b) of (Fin x, Fin y) \<Rightarrow> rd (x - y) | _ \<Rightarrow> jsub a b)"

definition dmul :: "jsnum \<Rightarrow> jsnum \<Rightarrow> jsnum" where
  "dmul a b = (case (a, b) of (Fin x, Fin y) \<Rightarrow> rd (x * y) | _ \<Rightarrow> jmul a b)"

definition ddiv :: "jsnum \<Rightarrow> jsnum \<Rightarrow> jsnum" where
  "ddiv a b =
    (case (a, b) of
       (Fin x, Fin y) \<Rightarrow> if y = 0 then jdiv a b else rd (x / y)
     | _ \<Rightarrow> jdiv a b)"

section \<open>Numeric extraction\<close>

text \<open>
  \<open>parseInt(s, 10)\<close>: leading white space is skipped, one sign is read, then the longest
  prefix of decimal digits; with no digit the result is \<open>NaN\<close>. Strings are byte strings
  here, so the white space is the ASCII white space (tab, line feed, vertical tab, form feed,
  carriage return, space).
\<close>

definition is_ws :: "char \<Rightarrow> bool" where
  "is_ws c = (let n = (of_char c :: nat) in (9 \<le> n \<and> n \<le> 13) \<or> n = 32)"

definition is_digit :: "char \<Rightarrow> bool" where
  "is_digit c = (let n = (of_char c :: nat) in 48 \<le> n \<and> n \<le> 57)"

definition digits_value :: "string \<Rightarrow> nat" where
  "digits_value ds = foldl (\<lambda>v c. 10 * v + (of_char c - 48)) 0 ds"

definition parseInt :: "string \<Rightarrow> jsnum" where
  "parseInt s =
    (let S = dropWhile is_ws s;
         neg = (case S of c # _ \<Rightarrow> c = CHR ''-'' | [] \<Rightarrow> False);
         S' = (case S of c # r \<Rightarrow> if c = CHR ''-'' \<or> c = CHR ''+'' then r else S | [] \<Rightarrow> S);
         Z = takeWhile is_digit S'
     in if Z = [] then NaN
        else if neg then Fin (- real (digits_value Z)) else Fin (real (digits_value Z)))"

text \<open>
  \<open>const p = (val: string | undefined) => parseInt(val || '0', 10)\<close>: an absent value and
  the empty string are falsy and replaced by \<open>'0'\<close>.
\<close>

definition p :: "string option \<Rightarrow> jsnum" where
  "p val = parseInt (case val of None \<Rightarrow> ''0'' | Some s \<Rightarrow> if s = [] then ''0'' else s)"

section \<open>Host functions\<close>

text \<open>
  Three functions of the JavaScript host appear in the code and are taken as parameters:
  the time value of \<open>new Date(s)\<close> for a string \<open>s\<close> (\<open>NaN\<close> for an invalid date),
  \<open>x.toFixed(d)\<close>, and the conversion of a number to a string in a template literal.
  A \<open>Date\<close> object is modelled by its time value, which is what \<open>getTime()\<close> returns and
  what the relational operators compare.
\<close>

record host =
  Date_time :: "string \<Rightarrow> jsnum"
  toFixed :: "jsnum \<Rightarrow> nat \<Rightarrow> string"
  num_str :: "jsnum \<Rightarrow> string"

section \<open>Data model\<close>

text \<open>
  The records follow \<open>types.ts\<close>. Of \<open>QuarterStats\<close> and \<open>MatchData\<close> the fields read by the
  functions below are kept. A dictionary that is only looked up is a map; \<open>quarter_stats\<close>
  is iterated with \<open>Object.values\<close> and is a list of entries in that order. The odds may be
  absent in a record (\<open>None\<close>); the code defaults them.
\<close>

record QuarterStats =
  field_goals_attempted :: string
  field_goals_made :: string
  free_throws_attempted :: string
  offensive_rebounds :: string
  turnovers :: "string option"

record QuarterScore =
  q_home_score :: string
  q_away_score :: string

record LineOdds =
  total_line :: jsnum
  over_odds :: "jsnum option"
  under_odds :: "jsnum option"

record MatchData =
  match_id :: string
  date_str :: string
  home_team :: string
  away_team :: string
  home_score :: string
  away_score :: string
  quarter_scores :: "string \<rightharpoonup> QuarterScore"
  quarter_stats :: "(string \<times> (string \<rightharpoonup> QuarterStats)) list"
  line_odds :: LineOdds

datatype outcome = OVER | UNDER | PUSH

record ProcessedMatch =
  pm_id :: string
  date :: jsnum
  homeTeam :: string
  awayTeam :: string
  homeScore :: jsnum
  awayScore :: jsnum
  totalScore :: jsnum
  regulationTotal :: jsnum
  line :: jsnum
  overOdds :: jsnum
  underOdds :: jsnum
  result :: outcome
  diff :: jsnum
  pace :: jsnum
  homeTS :: jsnum
  awayTS :: jsnum
  homeFG_Pct :: jsnum
  awayFG_Pct :: jsnum
  quarterlyTotals :: "jsnum list"
  homeQScores :: "jsnum list"
  awayQScores :: "jsnum list"
  isOT :: bool

section \<open>Derived metrics\<close>

definition calculatePossessions :: "QuarterStats option \<Rightarrow> jsnum" where
  "calculatePossessions stats =
    (case stats of
       None \<Rightarrow> Fin 0
     | Some s \<Rightarrow>
         (let fga = p (Some (field_goals_attempted s));
              fta = p (Some (free_throws_attempted s));
              orb = p (Some (offensive_rebounds s));
              tov = p (turnovers s)
          in jmul (Fin 0.96) (jadd (jsub (jadd fga (jmul (Fin 0.44) fta)) orb) tov)))"

definition calculateTS :: "jsnum \<Rightarrow> QuarterStats option \<Rightarrow> jsnum" where
  "calculateTS points stats =
    (case stats of
       None \<Rightarrow> Fin 0
     | Some s \<Rightarrow>
         if jeq points (Fin 0) then Fin 0
         else
           (let fga = p (Some (field_goals_attempted s));
                fta = p (Some (free_throws_attempted s));
                denominator = jmul (Fin 2) (jadd fga (jmul (Fin 0.44) fta))
            in if jeq denominator (Fin 0) then Fin 0
               else jmul (jdiv points denominator) (Fin 100)))"

section \<open>Match processor\<close>

text \<open>\<open>s.split(c)\<close> for a one-character separator, and \<open>xs.join(sep)\<close>.\<close>

fun split_on :: "char \<Rightarrow> string \<Rightarrow> string list" where
  "split_on c [] = [Nil]"
| "split_on c (x # xs) =
    (if x = c then [] # split_on c xs
     else (case split_on c xs of y # ys \<Rightarrow> (x # y) # ys | [] \<Rightarrow> [x # Nil]))"

fun join_with :: "string \<Rightarrow> string list \<Rightarrow> string" where
  "join_with sep [] = []"
| "join_with sep [x] = x"
| "join_with sep (x # y # ys) = x @ sep @ join_with sep (y # ys)"

text \<open>\<open>match.date.split(' ')[0].split('.').reverse().join('-')\<close>\<close>

definition iso_date :: "string \<Rightarrow> string" where
  "iso_date d =
    join_with ''-'' (rev (split_on (CHR ''.'')
      (case split_on (CHR '' '') d of x # _ \<Rightarrow> x | [] \<Rightarrow> [])))"

text \<open>
  \<open>xs.sort(cmp)\<close>: a stable sort; \<open>cmp a b > 0\<close> puts \<open>a\<close> after \<open>b\<close>, and a comparator
  value \<open>NaN\<close> counts as 0. (With invalid dates the comparator is inconsistent and
  the order the host produces is its own choice, always a permutation of the input.)
\<close>

fun js_insort :: "('a \<Rightarrow> 'a \<Rightarrow> jsnum) \<Rightarrow> 'a \<Rightarrow> 'a list \<Rightarrow> 'a list" where
  "js_insort cmp x [] = [x]"
| "js_insort cmp x (y # ys) =
    (if jgt (cmp x y) (Fin 0) then y # js_insort cmp x ys else x # y # ys)"

definition js_sort :: "('a \<Rightarrow> 'a \<Rightarrow> jsnum) \<Rightarrow> 'a list \<Rightarrow> 'a list" where
  "js_sort cmp xs = foldr (js_insort cmp) xs []"

text \<open>The comparator \<open>(a, b) => b.date.getTime() - a.date.getTime()\<close>: newest first.\<close>

definition by_date_desc :: "ProcessedMatch \<Rightarrow> ProcessedMatch \<Rightarrow> jsnum" where
  "by_date_desc a b = jsub (date b) (date a)"

definition quarters :: "string list" where
  "quarters = [''Q1'', ''Q2'', ''Q3'', ''Q4'']"

text \<open>The running totals of the loop over \<open>Object.values(match.quarter_stats)\<close>.\<close>

record GameTotals =
  homePoss :: jsnum
  awayPoss :: jsnum
  homeFGA :: jsnum
  homeFGM :: jsnum
  homeFTA :: jsnum
  awayFGA :: jsnum
  awayFGM :: jsnum
  awayFTA :: jsnum

definition zeroTotals :: GameTotals where
  "zeroTotals = \<lparr>homePoss = Fin 0, awayPoss = Fin 0, homeFGA = Fin 0, homeFGM = Fin 0,
     homeFTA = Fin 0, awayFGA = Fin 0, awayFGM = Fin 0, awayFTA = Fin 0\<rparr>"

definition addQuarter :: "MatchData \<Rightarrow> GameTotals \<Rightarrow> (string \<rightharpoonup> QuarterStats) \<Rightarrow> GameTotals" where
  "addQuarter m t qStats =
    (let t1 = (case qStats (home_team m) of
                 Some h \<Rightarrow>
                   t\<lparr>homePoss := jadd (homePoss t) (calculatePossessions (Some h)),
                     homeFGA := jadd (homeFGA t) (p (Some (field_goals_attempted h))),
                     homeFGM := jadd (homeFGM t) (p (Some (field_goals_made h))),
                     homeFTA := jadd (homeFTA t) (p (Some (free_throws_attempted h)))\<rparr>
               | None \<Rightarrow> t)
     in case qStats (away_team m) of
          Some a \<Rightarrow>
            t1\<lparr>awayPoss := jadd (awayPoss t1) (calculatePossessions (Some a)),
               awayFGA := jadd (awayFGA t1) (p (Some (field_goals_attempted a))),
               awayFGM := jadd (awayFGM t1) (p (Some (field_goals_made a))),
               awayFTA := jadd (awayFTA t1) (p (Some (free_throws_attempted a)))\<rparr>
        | None \<Rightarrow> t1)"

definition gameTotals :: "MatchData \<Rightarrow> GameTotals" where
  "gameTotals m = foldl (addQuarter m) zeroTotals (map snd (quarter_stats m))"

definition regScore :: "(QuarterScore \<Rightarrow> string) \<Rightarrow> MatchData \<Rightarrow> jsnum" where
  "regScore sel m =
    foldl (\<lambda>acc q. jadd acc (case quarter_scores m q of
                                Some s \<Rightarrow> p (Some (sel s)) | None \<Rightarrow> Fin 0))
      (Fin 0) quarters"

definition gameTS :: "jsnum \<Rightarrow> jsnum \<Rightarrow> jsnum \<Rightarrow> jsnum" where
  "gameTS score fga fta =
    jor (jmul (jdiv score (jmul (Fin 2) (jadd fga (jmul (Fin 0.44) fta)))) (Fin 100)) (Fin 0)"

definition processMatch :: "host \<Rightarrow> MatchData \<Rightarrow> ProcessedMatch" where
  "processMatch h m =
    (let hScore = p (Some (home_score m));
         aScore = p (Some (away_score m));
         total = jadd hScore aScore;
         theLine = total_line (line_odds m);
         res0 = (if jgt total theLine then OVER else PUSH);
         res = (if jlt total theLine then UNDER else res0);
         homeRegScore = regScore q_home_score m;
         awayRegScore = regScore q_away_score m;
         t = gameTotals m
     in \<lparr>pm_id = match_id m,
         date = Date_time h (iso_date (date_str m)),
         homeTeam = home_team m,
         awayTeam = away_team m,
         homeScore = hScore,
         awayScore = aScore,
         totalScore = total,
         regulationTotal = jadd homeRegScore awayRegScore,
         line = theLine,
         overOdds = (case over_odds (line_odds m) of
                       Some ov \<Rightarrow> jor ov (rd 1.91) | None \<Rightarrow> rd 1.91),
         underOdds = (case under_odds (line_odds m) of
                        Some un \<Rightarrow> jor un (rd 1.91) | None \<Rightarrow> rd 1.91),
         result = res,
         diff = jsub total theLine,
         pace = jdiv (jadd (homePoss t) (awayPoss t)) (Fin 2),
         homeTS = gameTS hScore (homeFGA t) (homeFTA t),
         awayTS = gameTS aScore (awayFGA t) (awayFTA t),
         homeFG_Pct = (if jgt (homeFGA t) (Fin 0)
                       then jmul (jdiv (homeFGM t) (homeFGA t)) (Fin 100) else Fin 0),
         awayFG_Pct = (if jgt (awayFGA t) (Fin 0)
                       then jmul (jdiv (awayFGM t) (awayFGA t)) (Fin 100) else Fin 0),
         quarterlyTotals =
           map (\<lambda>q. case quarter_scores m q of
                      Some s \<Rightarrow> jadd (p (Some (q_home_score s))) (p (Some (q_away_score s)))
                    | None \<Rightarrow> Fin 0) quarters,
         homeQScores =
           map (\<lambda>q. case quarter_scores m q of
                      Some s \<Rightarrow> p (Some (q_home_score s)) | None \<Rightarrow> Fin 0) quarters,
         awayQScores =
           map (\<lambda>q. case quarter_scores m q of
                      Some s \<Rightarrow> p (Some (q_away_score s)) | None \<Rightarrow> Fin 0) quarters,
         isOT = (quarter_scores m ''OT'' \<noteq> None)\<rparr>)"

definition processMatches :: "host \<Rightarrow> MatchData list \<Rightarrow> ProcessedMatch list" where
  "processMatches h rawData = js_sort by_date_desc (map (processMatch h) rawData)"

section \<open>Matchup analyzer\<close>

text \<open>
  \<open>gamesPlayed\<close> is optional here: the simulator's own aggregation builds \<open>TeamStats\<close>
  values without it.
\<close>

record TeamStats =
  name :: string
  gamesPlayed :: "jsnum option"
  avgPointsFor :: jsnum
  avgPointsAgainst :: jsnum
  avgPace :: jsnum
  avgTS :: jsnum
  overRate :: jsnum
  last10Avg :: jsnum
  avgFGA :: jsnum
  avgFG_Pct :: jsnum
  avg3P_Pct :: jsnum
  avgFouls :: jsnum
  avgFTM :: jsnum
  avgTurnovers :: jsnum
  avgFTA :: jsnum
  avgRebounds :: jsnum

datatype insight_type = PACE | BRICK | FOUL | MISMATCH | DEFENSE

record MatchupInsight =
  type :: insight_type
  title :: string
  desc :: string
  color :: string

definition mismatch :: "host \<Rightarrow> TeamStats \<Rightarrow> TeamStats \<Rightarrow> MatchupInsight" where
  "mismatch h a b =
    \<lparr>type = MISMATCH,
     title = name a @ '' Scoring Potential'',
     desc = ''Elite Offense vs Poor Defense. '' @ name a @ '' scores '' @
            toFixed h (avgPointsFor a) 1 @ '' while '' @ name b @ '' allows '' @
            toFixed h (avgPointsAgainst b) 1 @ ''.'',
     color = ''bg-red-500/20 text-red-400 border-red-500/30''\<rparr>"

definition analyzeMatchup :: "host \<Rightarrow> TeamStats \<Rightarrow> TeamStats \<Rightarrow> MatchupInsight list" where
  "analyzeMatchup h t1 t2 =
    (let combinedFGA = jadd (avgFGA t1) (avgFGA t2);
         combinedFouls = jadd (avgFouls t1) (avgFouls t2);
         combinedFTM = jadd (avgFTM t1) (avgFTM t2)
     in
       (if jgt combinedFGA (Fin 175)
        then [\<lparr>type = PACE,
               title = ''Pace Clash: High Volume'',
               desc = ''Combined Avg FGA is '' @ toFixed h combinedFGA 1 @
                      ''. Both teams play fast, increasing potential for Over.'',
               color = ''bg-yellow-500/20 text-yellow-400 border-yellow-500/30''\<rparr>]
        else []) @
       (if jlt (avg3P_Pct t1) (Fin 33) \<and> jlt (avg3P_Pct t2) (Fin 33)
        then [\<lparr>type = BRICK,
               title = ''Brick City Warning'',
               desc = ''Both teams shoot < 33% from deep ('' @ toFixed h (avg3P_Pct t1) 1 @
                      ''% & '' @ toFixed h (avg3P_Pct t2) 1 @
                      ''%). Risk of scoring droughts.'',
               color = ''bg-cyan-500/20 text-cyan-400 border-cyan-500/30''\<rparr>]
        else []) @
       (if jgt combinedFouls (Fin 40) \<and> jgt combinedFTM (Fin 35)
        then [\<lparr>type = FOUL,
               title = ''Whistle Heavy'',
               desc = ''High combined fouls ('' @ toFixed h combinedFouls 0 @ '') & FTM ('' @
                      toFixed h combinedFTM 0 @
                      ''). Frequent stops & free points favor Over.'',
               color = ''bg-orange-500/20 text-orange-400 border-orange-500/30''\<rparr>]
        else []) @
       (if jgt (avgPointsFor t1) (Fin 115) \<and> jgt (avgPointsAgainst t2) (Fin 115)
        then [mismatch h t1 t2] else []) @
       (if jgt (avgPointsFor t2) (Fin 115) \<and> jgt (avgPointsAgainst t1) (Fin 115)
        then [mismatch h t2 t1] else []) @
       (if jlt (avgPointsAgainst t1) (Fin 108) \<and> jlt (avgPointsAgainst t2) (Fin 108)
        then [\<lparr>type = DEFENSE,
               title = ''Defensive Battle'',
               desc = ''Both teams allow < 108 PPG. Expect tight contesting and lower total.'',
               color = ''bg-slate-500/20 text-slate-300 border-slate-500/30''\<rparr>]
        else []))"

section \<open>Per-match insight generator\<close>

definition getMean :: "jsnum list \<Rightarrow> jsnum" where
  "getMean data = jdiv (foldl jadd (Fin 0) data) (Fin (real (length data)))"

definition getSD :: "jsnum list \<Rightarrow> jsnum" where
  "getSD data =
    (let m = getMean data
     in jsqrt (jdiv (foldl (\<lambda>sq n. jadd sq (jpow2 (jsub n m))) (Fin 0) data)
                    (Fin (real (length data) - 1))))"

definition relevantHistory :: "ProcessedMatch \<Rightarrow> ProcessedMatch list \<Rightarrow> ProcessedMatch list" where
  "relevantHistory match allMatches =
    js_sort by_date_desc
      (filter (\<lambda>m. jlt (date m) (date match) \<and>
                    (homeTeam m = homeTeam match \<or> awayTeam m = homeTeam match \<or>
                     homeTeam m = awayTeam match \<or> awayTeam m = awayTeam match))
         allMatches)"

text \<open>The loop over \<open>last10\<close> that accumulates \<open>q4DiffAcc\<close> and \<open>gamesCounted\<close>.\<close>

definition q4Step :: "jsnum \<times> nat \<Rightarrow> ProcessedMatch \<Rightarrow> jsnum \<times> nat" where
  "q4Step acc m =
    (case acc of (q4DiffAcc, gamesCounted) \<Rightarrow>
      if length (quarterlyTotals m) = 4
      then (let q123Avg = jdiv (jadd (jadd (quarterlyTotals m ! 0) (quarterlyTotals m ! 1))
                                     (quarterlyTotals m ! 2)) (Fin 3);
                q4 = quarterlyTotals m ! 3
            in (jadd q4DiffAcc (jsub q4 q123Avg), gamesCounted + 1))
      else acc)"

definition q4Loop :: "ProcessedMatch list \<Rightarrow> jsnum \<times> nat" where
  "q4Loop last10 = foldl q4Step (Fin 0, 0) last10"

record MatchInsights =
  mean15 :: jsnum
  sd15 :: jsnum
  highScoringRate :: jsnum
  q4Trend :: string
  q4TrendValue :: jsnum

definition generateMatchInsights :: "ProcessedMatch \<Rightarrow> ProcessedMatch list \<Rightarrow> MatchInsights" where
  "generateMatchInsights match allMatches =
    (let history = relevantHistory match allMatches;
         last15 = take 15 history;
         totals15 = map totalScore last15;
         last10 = take 10 history;
         highScoringGames = length (filter (\<lambda>m. jgt (totalScore m) (Fin 240)) last10);
         (q4DiffAcc, gamesCounted) = q4Loop last10;
         trendValue = (if gamesCounted > 0 then jdiv q4DiffAcc (Fin (real gamesCounted))
                       else Fin 0);
         trend0 = (if jgt trendValue (Fin 2) then ''High Intensity (+)'' else ''Neutral'');
         trend = (if jlt trendValue (Fin (- 2)) then ''Fade (-)'' else trend0)
     in \<lparr>mean15 = (if length totals15 > 0 then getMean totals15 else Fin 0),
         sd15 = (if length totals15 > 0 then getSD totals15 else Fin 0),
         highScoringRate =
           (if length last10 > 0
            then jmul (jdiv (Fin (real highScoringGames)) (Fin (real (length last10)))) (Fin 100)
            else Fin 0),
         q4Trend = trend,
         q4TrendValue = trendValue\<rparr>)"

section \<open>Backtest engine\<close>

datatype strategy = ALL_OVER | ALL_UNDER | LEAGUE_AVG_REVERSION | TEAM_MODEL | HIGH_EFFICIENCY_OVER

text \<open>The side of a bet (\<open>'OVER' | 'UNDER'\<close>) and the settled result written to the log.\<close>

datatype bet_type = BetOver | BetUnder

datatype bet_result = WIN | LOSS | Push

text \<open>The state of the simulator component that a backtest run reads.\<close>

record SimState =
  backtestMatches :: "ProcessedMatch list"
  wager :: jsnum
  strategy :: strategy
  valueMargin :: jsnum
  selectedTeam :: string
  startDate :: string
  endDate :: string
  efficiencyThreshold :: jsnum

definition normalizeTeamName :: "string \<Rightarrow> string" where
  "normalizeTeamName nm =
    (case map_of [(''LA Clippers'', ''Los Angeles Clippers'')] nm of
       Some v \<Rightarrow> if v = [] then nm else v
     | None \<Rightarrow> nm)"

text \<open>
  \<open>currentTeamStats\<close>: the per-team sums are kept in an object keyed by team name, here an
  association list in insertion order with one entry per name.
\<close>

record TeamSums =
  team :: string
  pointsFor :: jsnum
  pointsAgainst :: jsnum
  games :: jsnum
  fgSum :: jsnum

definition ensureTeam :: "string \<Rightarrow> (string \<times> TeamSums) list \<Rightarrow> (string \<times> TeamSums) list" where
  "ensureTeam t stats =
    (if map_of stats t = None
     then stats @ [(t, \<lparr>team = t, pointsFor = Fin 0, pointsAgainst = Fin 0, games = Fin 0,
                         fgSum = Fin 0\<rparr>)]
     else stats)"

definition updTeam ::
  "string \<Rightarrow> (TeamSums \<Rightarrow> TeamSums) \<Rightarrow> (string \<times> TeamSums) list \<Rightarrow> (string \<times> TeamSums) list" where
  "updTeam t f stats = map (\<lambda>(k, v). if k = t then (k, f v) else (k, v)) stats"

definition addMatchSums :: "(string \<times> TeamSums) list \<Rightarrow> ProcessedMatch \<Rightarrow> (string \<times> TeamSums) list" where
  "addMatchSums stats m =
    (let s0 = ensureTeam (awayTeam m) (ensureTeam (homeTeam m) stats);
         s1 = updTeam (homeTeam m)
                (\<lambda>t. t\<lparr>pointsFor := jadd (pointsFor t) (homeScore m),
                        pointsAgainst := jadd (pointsAgainst t) (awayScore m),
                        fgSum := jadd (fgSum t) (homeFG_Pct m),
                        games := jadd (games t) (Fin 1)\<rparr>) s0
     in updTeam (awayTeam m)
          (\<lambda>t. t\<lparr>pointsFor := jadd (pointsFor t) (awayScore m),
                  pointsAgainst := jadd (pointsAgainst t) (homeScore m),
                  fgSum := jadd (fgSum t) (awayFG_Pct m),
                  games := jadd (games t) (Fin 1)\<rparr>) s1)"

definition currentTeamStats :: "SimState \<Rightarrow> TeamStats list" where
  "currentTeamStats st =
    map (\<lambda>(k, t).
          \<lparr>name = team t, gamesPlayed = None,
           avgPointsFor = jdiv (pointsFor t) (games t),
           avgPointsAgainst = jdiv (pointsAgainst t) (games t),
           avgPace = Fin 0, avgTS = Fin 0, overRate = Fin 0, last10Avg = Fin 0,
           avgFGA = Fin 0,
           avgFG_Pct = jdiv (fgSum t) (games t),
           avg3P_Pct = Fin 0, avgFouls = Fin 0, avgFTM = Fin 0, avgTurnovers = Fin 0,
           avgFTA = Fin 0, avgRebounds = Fin 0\<rparr>)
      (foldl addMatchSums [] (backtestMatches st))"

definition getTeamStats :: "SimState \<Rightarrow> string \<Rightarrow> TeamStats option" where
  "getTeamStats st nm = find (\<lambda>t. name t = normalizeTeamName nm) (currentTeamStats st)"

definition leagueTotal :: "SimState \<Rightarrow> jsnum" where
  "leagueTotal st = foldl (\<lambda>sum m. jadd sum (totalScore m)) (Fin 0) (backtestMatches st)"

definition leagueAvg :: "SimState \<Rightarrow> jsnum" where
  "leagueAvg st =
    (if length (backtestMatches st) > 0
     then jdiv (leagueTotal st) (Fin (real (length (backtestMatches st))))
     else Fin 230)"

definition filteredMatches :: "host \<Rightarrow> SimState \<Rightarrow> ProcessedMatch list" where
  "filteredMatches h st =
    js_sort by_date_desc
      (filter (\<lambda>m.
          (selectedTeam st = ''ALL'' \<or> homeTeam m = selectedTeam st \<or>
           awayTeam m = selectedTeam st) \<and>
          (startDate st = [] \<or> jge (date m) (Date_time h (startDate st))) \<and>
          (endDate st = [] \<or> jle (date m) (Date_time h (endDate st))))
        (backtestMatches st))"

text \<open>The first half of the loop body: which side to bet, if any, and why.\<close>

record Signal =
  betType :: "bet_type option"
  shouldBet :: bool
  signalReason :: string

definition noSignal :: Signal where
  "noSignal = \<lparr>betType = None, shouldBet = False, signalReason = []\<rparr>"

definition decideBet :: "host \<Rightarrow> SimState \<Rightarrow> ProcessedMatch \<Rightarrow> Signal" where
  "decideBet h st match =
    (case strategy st of
       ALL_OVER \<Rightarrow> \<lparr>betType = Some BetOver, shouldBet = True, signalReason = ''Blind Bet''\<rparr>
     | ALL_UNDER \<Rightarrow> \<lparr>betType = Some BetUnder, shouldBet = True, signalReason = ''Blind Bet''\<rparr>
     | HIGH_EFFICIENCY_OVER \<Rightarrow>
         (case getTeamStats st (homeTeam match) of
            None \<Rightarrow> noSignal
          | Some home \<Rightarrow>
             (case getTeamStats st (awayTeam match) of
                None \<Rightarrow> noSignal
              | Some away \<Rightarrow>
                 (let combinedFG = jdiv (jadd (avgFG_Pct home) (avgFG_Pct away)) (Fin 2)
                  in if jgt combinedFG (efficiencyThreshold st)
                     then \<lparr>betType = Some BetOver, shouldBet = True,
                           signalReason = ''Combined FG% '' @ toFixed h combinedFG 1 @
                             ''% > '' @ num_str h (efficiencyThreshold st) @ ''%''\<rparr>
                     else noSignal)))
     | LEAGUE_AVG_REVERSION \<Rightarrow>
         (if jgt (line match) (jadd (leagueAvg st) (valueMargin st))
          then \<lparr>betType = Some BetUnder, shouldBet = True,
                signalReason = ''Line '' @ num_str h (line match) @ '' > League Avg '' @
                  toFixed h (leagueAvg st) 1 @ '' + '' @ num_str h (valueMargin st)\<rparr>
          else if jlt (line match) (jsub (leagueAvg st) (valueMargin st))
          then \<lparr>betType = Some BetOver, shouldBet = True,
                signalReason = ''Line '' @ num_str h (line match) @ '' < League Avg '' @
                  toFixed h (leagueAvg st) 1 @ '' - '' @ num_str h (valueMargin st)\<rparr>
          else noSignal)
     | TEAM_MODEL \<Rightarrow>
         (case getTeamStats st (homeTeam match) of
            None \<Rightarrow> noSignal
          | Some home \<Rightarrow>
             (case getTeamStats st (awayTeam match) of
                None \<Rightarrow> noSignal
              | Some away \<Rightarrow>
                 (let homeAvgTotal = jadd (avgPointsFor home) (avgPointsAgainst home);
                      awayAvgTotal = jadd (avgPointsFor away) (avgPointsAgainst away);
                      projectedTotal =
                        jmul (jdiv (jadd homeAvgTotal awayAvgTotal) (Fin 4)) (Fin 2)
                  in if jgt projectedTotal (jadd (line match) (valueMargin st))
                     then \<lparr>betType = Some BetOver, shouldBet = True,
                           signalReason = ''Model Proj '' @ toFixed h projectedTotal 1 @
                             '' > Line '' @ num_str h (line match)\<rparr>
                     else if jlt projectedTotal (jsub (line match) (valueMargin st))
                     then \<lparr>betType = Some BetUnder, shouldBet = True,
                           signalReason = ''Model Proj '' @ toFixed h projectedTotal 1 @
                             '' < Line '' @ num_str h (line match)\<rparr>
                     else noSignal))))"

text \<open>The second half of the loop body: settling a placed bet.\<close>

record BetLog =
  id_log :: string
  date_log :: jsnum
  home :: string
  away :: string
  score :: jsnum
  line_log :: jsnum
  pick :: bet_type
  result_log :: bet_result
  pnl :: jsnum
  reason :: string

record Tally =
  wins :: nat
  losses :: nat
  pushes :: nat
  profit :: jsnum
  betsPlaced :: nat
  historyLogs :: "BetLog list"

definition emptyTally :: Tally where
  "emptyTally = \<lparr>wins = 0, losses = 0, pushes = 0, profit = Fin 0, betsPlaced = 0,
     historyLogs = []\<rparr>"

definition placeBet :: "jsnum \<Rightarrow> Tally \<Rightarrow> ProcessedMatch \<Rightarrow> bet_type \<Rightarrow> string \<Rightarrow> Tally" where
  "placeBet w t match b why =
    (let odds = (case b of BetOver \<Rightarrow> overOdds match | BetUnder \<Rightarrow> underOdds match);
         won = (case b of
                  BetOver \<Rightarrow> jgt (totalScore match) (line match)
                | BetUnder \<Rightarrow> jlt (totalScore match) (line match));
         lost = (\<not> won \<and>
                 (case b of
                    BetOver \<Rightarrow> jlt (totalScore match) (line match)
                  | BetUnder \<Rightarrow> jgt (totalScore match) (line match)));
         resultPnl = (if won then dmul w (dsub odds (Fin 1))
                      else if lost then jneg w else Fin 0)
     in \<lparr>wins = (if won then wins t + 1 else wins t),
         losses = (if won then losses t else if lost then losses t + 1 else losses t),
         pushes = (if won then pushes t else if lost then pushes t else pushes t + 1),
         profit = (if won then dadd (profit t) resultPnl
                   else if lost then dsub (profit t) w else profit t),
         betsPlaced = betsPlaced t + 1,
         historyLogs = historyLogs t @
           [\<lparr>id_log = pm_id match, date_log = date match, home = homeTeam match,
             away = awayTeam match, score = totalScore match, line_log = line match,
             pick = b,
             result_log = (if won then WIN else if lost then LOSS else Push),
             pnl = resultPnl, reason = why\<rparr>]\<rparr>)"

definition backtestStep :: "host \<Rightarrow> SimState \<Rightarrow> Tally \<Rightarrow> ProcessedMatch \<Rightarrow> Tally" where
  "backtestStep h st t match =
    (let s = decideBet h st match
     in case betType s of
          Some b \<Rightarrow> if shouldBet s then placeBet (wager st) t match b (signalReason s) else t
        | None \<Rightarrow> t)"

text \<open>
  The returned object: the tallies, \<open>roi\<close> and the league average; its \<open>totalBets\<close> is
  \<open>betsPlaced\<close>.
\<close>

record BacktestResult = Tally +
  roi :: jsnum
  leagueAvg_used :: jsnum

definition totalBets :: "BacktestResult \<Rightarrow> nat" where
  "totalBets r = betsPlaced r"

definition calculateBacktestROI :: "host \<Rightarrow> SimState \<Rightarrow> BacktestResult" where
  "calculateBacktestROI h st =
    (let t = foldl (backtestStep h st) emptyTally (filteredMatches h st)
     in \<lparr>wins = wins t, losses = losses t, pushes = pushes t, profit = profit t,
         betsPlaced = betsPlaced t, historyLogs = historyLogs t,
         roi = (if betsPlaced t > 0
                then dmul (ddiv (profit t) (dmul (Fin (real (betsPlaced t))) (wager st)))
                       (Fin 100)
                else Fin 0),
         leagueAvg_used = leagueAvg st\<rparr>)"

section \<open>Reference definitions\<close>

text \<open>
  What the code is measured against, written independently of its loops: the points of one
  period of a raw record, and the total of the two sides in it; the fourth-period total of
  a processed match less the mean of its first three; when a bet on a side wins and loses,
  the price of the picked side, the profit or loss of one settled bet, the profit of a run
  after it, and its logged result; the bets of a run (the matches, in the order of the run,
  for which the strategy gives a side); the FG% values of a team in a list of matches; and
  the average total of a list of matches.
\<close>

definition period_points :: "(QuarterScore \<Rightarrow> string) \<Rightarrow> MatchData \<Rightarrow> string \<Rightarrow> jsnum" where
  "period_points sel r q =
    (case quarter_scores r q of None \<Rightarrow> Fin 0 | Some s \<Rightarrow> p (Some (sel s)))"

definition period_total :: "MatchData \<Rightarrow> string \<Rightarrow> jsnum" where
  "period_total r q =
    (case quarter_scores r q of
       None \<Rightarrow> Fin 0
     | Some s \<Rightarrow> jadd (p (Some (q_home_score s))) (p (Some (q_away_score s))))"

definition q4_diff :: "ProcessedMatch \<Rightarrow> jsnum" where
  "q4_diff m =
    jsub (quarterlyTotals m ! 3)
      (jdiv (jadd (jadd (quarterlyTotals m ! 0) (quarterlyTotals m ! 1)) (quarterlyTotals m ! 2))
         (Fin 3))"

definition bet_wins :: "bet_type \<Rightarrow> ProcessedMatch \<Rightarrow> bool" where
  "bet_wins b m =
    (case b of BetOver \<Rightarrow> jgt (totalScore m) (line m) | BetUnder \<Rightarrow> jlt (totalScore m) (line m))"

definition bet_loses :: "bet_type \<Rightarrow> ProcessedMatch \<Rightarrow> bool" where
  "bet_loses b m =
    (case b of BetOver \<Rightarrow> jlt (totalScore m) (line m) | BetUnder \<Rightarrow> jgt (totalScore m) (line m))"

definition picked_odds :: "bet_type \<Rightarrow> ProcessedMatch \<Rightarrow> jsnum" where
  "picked_odds b m = (case b of BetOver \<Rightarrow> overOdds m | BetUnder \<Rightarrow> underOdds m)"

definition settled_pnl :: "jsnum \<Rightarrow> bet_type \<Rightarrow> ProcessedMatch \<Rightarrow> jsnum" where
  "settled_pnl w b m =
    (if bet_wins b m then dmul w (dsub (picked_odds b m) (Fin 1))
     else if bet_loses b m then jneg w
     else Fin 0)"

definition settle_profit :: "jsnum \<Rightarrow> jsnum \<Rightarrow> bet_type \<Rightarrow> ProcessedMatch \<Rightarrow> jsnum" where
  "settle_profit w acc b m =
    (if bet_wins b m then dadd acc (dmul w (dsub (picked_odds b m) (Fin 1)))
     else if bet_loses b m then dsub acc w
     else acc)"

definition settled_result :: "bet_type \<Rightarrow> ProcessedMatch \<Rightarrow> bet_result" where
  "settled_result b m = (if bet_wins b m then WIN else if bet_loses b m then LOSS else Push)"

definition betsOn :: "host \<Rightarrow> SimState \<Rightarrow> ProcessedMatch list \<Rightarrow> (ProcessedMatch \<times> bet_type) list" where
  "betsOn h st ms =
    concat (map (\<lambda>m. case betType (decideBet h st m) of
                        Some b \<Rightarrow> if shouldBet (decideBet h st m) then [(m, b)] else []
                      | None \<Rightarrow> []) ms)"

definition placedBets :: "host \<Rightarrow> SimState \<Rightarrow> (ProcessedMatch \<times> bet_type) list" where
  "placedBets h st = betsOn h st (filteredMatches h st)"


definition averageTotal :: "ProcessedMatch list \<Rightarrow> jsnum" where
  "averageTotal ms =
    jdiv (foldl (\<lambda>s m. jadd s (totalScore m)) (Fin 0) ms) (Fin (real (length ms)))"

section \<open>Sample inputs\<close>

text \<open>
  Concrete inputs for the instances below: a host whose time values order ISO dates
  chronologically, raw records (a game with four periods and an overtime, a game with four
  periods, a game whose record lacks the fourth period, games whose record carries no
  period data, a game with one period of box scores), simulator states built from them, and
  team statistics.
\<close>

definition sample_host :: host where
  "sample_host =
    \<lparr>Date_time = (\<lambda>s. parseInt (filter (\<lambda>c. c \<noteq> CHR ''-'') s)),
     toFixed = (\<lambda>x d. ''#''),
     num_str = (\<lambda>x. ''#'')\<rparr>"

definition overtime_match :: MatchData where
  "overtime_match =
    \<lparr>match_id = ''g1'', date_str = ''10.01.2025 19:00'',
     home_team = ''Boston Celtics'', away_team = ''Miami Heat'',
     home_score = ''112'', away_score = ''108'',
     quarter_scores =
       [''Q1'' \<mapsto> \<lparr>q_home_score = ''25'', q_away_score = ''27''\<rparr>,
        ''Q2'' \<mapsto> \<lparr>q_home_score = ''26'', q_away_score = ''24''\<rparr>,
        ''Q3'' \<mapsto> \<lparr>q_home_score = ''24'', q_away_score = ''26''\<rparr>,
        ''Q4'' \<mapsto> \<lparr>q_home_score = ''25'', q_away_score = ''23''\<rparr>,
        ''OT'' \<mapsto> \<lparr>q_home_score = ''12'', q_away_score = ''8''\<rparr>],
     quarter_stats = [],
     line_odds = \<lparr>total_line = Fin 220, over_odds = None, under_odds = None\<rparr>\<rparr>"

definition four_periods_match :: MatchData where
  "four_periods_match =
    \<lparr>match_id = ''g8'', date_str = ''08.01.2025 20:00'',
     home_team = ''New York Knicks'', away_team = ''Chicago Bulls'',
     home_score = ''104'', away_score = ''102'',
     quarter_scores =
       [''Q1'' \<mapsto> \<lparr>q_home_score = ''26'', q_away_score = ''24''\<rparr>,
        ''Q2'' \<mapsto> \<lparr>q_home_score = ''24'', q_away_score = ''26''\<rparr>,
        ''Q3'' \<mapsto> \<lparr>q_home_score = ''25'', q_away_score = ''25''\<rparr>,
        ''Q4'' \<mapsto> \<lparr>q_home_score = ''29'', q_away_score = ''27''\<rparr>],
     quarter_stats = [],
     line_odds = \<lparr>total_line = Fin 205, over_odds = None, under_odds = None\<rparr>\<rparr>"

definition no_q4_match :: MatchData where
  "no_q4_match =
    \<lparr>match_id = ''g9'', date_str = ''09.01.2025 19:00'',
     home_team = ''Boston Celtics'', away_team = ''Utah Jazz'',
     home_score = ''91'', away_score = ''89'',
     quarter_scores =
       [''Q1'' \<mapsto> \<lparr>q_home_score = ''31'', q_away_score = ''29''\<rparr>,
        ''Q2'' \<mapsto> \<lparr>q_home_score = ''28'', q_away_score = ''32''\<rparr>,
        ''Q3'' \<mapsto> \<lparr>q_home_score = ''32'', q_away_score = ''28''\<rparr>],
     quarter_stats = [],
     line_odds = \<lparr>total_line = Fin 210, over_odds = None, under_odds = None\<rparr>\<rparr>"

definition plain_match ::
  "string \<Rightarrow> string \<Rightarrow> string \<Rightarrow> string \<Rightarrow> string \<Rightarrow> string \<Rightarrow> real \<Rightarrow> MatchData" where
  "plain_match mid d hteam ateam hs ascore lv =
    \<lparr>match_id = mid, date_str = d, home_team = hteam, away_team = ateam,
     home_score = hs, away_score = ascore,
     quarter_scores = Map.empty, quarter_stats = [],
     line_odds = \<lparr>total_line = Fin lv, over_odds = None, under_odds = None\<rparr>\<rparr>"

definition bad_score_match :: MatchData where
  "bad_score_match =
    plain_match ''g2'' ''11.01.2025 19:00'' ''Boston Celtics'' ''Miami Heat'' ''n/a'' ''100'' 200"

definition no_line_match :: MatchData where
  "no_line_match =
    (plain_match ''g7'' ''11.01.2025 19:00'' ''Chicago Bulls'' ''Miami Heat'' ''105'' ''105'' 0)
      \<lparr>line_odds := \<lparr>total_line = NaN, over_odds = None, under_odds = None\<rparr>\<rparr>"

definition no_stats_match :: MatchData where
  "no_stats_match =
    plain_match ''g3'' ''09.01.2025 19:00'' ''Boston Celtics'' ''New York Knicks'' ''110'' ''100''
      215"

definition target_match :: MatchData where
  "target_match =
    plain_match ''t1'' ''10.01.2025 21:30'' ''Boston Celtics'' ''New York Knicks'' ''105'' ''99''
      210"

definition other_teams_match :: MatchData where
  "other_teams_match =
    plain_match ''g5'' ''08.01.2025 20:00'' ''Chicago Bulls'' ''Utah Jazz'' ''120'' ''125'' 230"

definition over_hits_match :: MatchData where
  "over_hits_match =
    plain_match ''g6'' ''07.01.2025 19:00'' ''Denver Nuggets'' ''Utah Jazz'' ''120'' ''110''
      (451 / 2)"

definition sim_state :: "MatchData list \<Rightarrow> strategy \<Rightarrow> SimState" where
  "sim_state raw s =
    \<lparr>backtestMatches = processMatches sample_host raw, wager = Fin 100, strategy = s,
     valueMargin = Fin 5, selectedTeam = ''ALL'', startDate = [], endDate = [],
     efficiencyThreshold = Fin (93 / 2)\<rparr>"

definition line_236_match :: MatchData where
  "line_236_match =
    plain_match ''r1'' ''07.01.2025 19:00'' ''Denver Nuggets'' ''Utah Jazz'' ''120'' ''120'' 236"

definition line_224_match :: MatchData where
  "line_224_match =
    plain_match ''r2'' ''08.01.2025 20:00'' ''Chicago Bulls'' ''Miami Heat'' ''110'' ''110'' 224"

definition line_230_match :: MatchData where
  "line_230_match =
    plain_match ''r3'' ''09.01.2025 19:00'' ''Boston Celtics'' ''New York Knicks'' ''115'' ''115''
      230"

definition reversion_state :: SimState where
  "reversion_state =
    sim_state [line_236_match, line_224_match, line_230_match] LEAGUE_AVG_REVERSION"

definition low_total_match :: MatchData where
  "low_total_match =
    plain_match ''c1'' ''09.01.2025 19:00'' ''Boston Celtics'' ''New York Knicks'' ''100'' ''100''
      212"

definition high_total_match :: MatchData where
  "high_total_match =
    plain_match ''c2'' ''08.01.2025 20:00'' ''Chicago Bulls'' ''Utah Jazz'' ''130'' ''130'' 250"

definition celtics_only_state :: SimState where
  "celtics_only_state =
    (sim_state [low_total_match, high_total_match] LEAGUE_AVG_REVERSION)
      \<lparr>selectedTeam := ''Boston Celtics''\<rparr>"



definition team_fg :: "string \<Rightarrow> real \<Rightarrow> real \<Rightarrow> real \<Rightarrow> TeamStats" where
  "team_fg nm pf pa fg =
    \<lparr>name = nm, gamesPlayed = None, avgPointsFor = Fin pf, avgPointsAgainst = Fin pa,
     avgPace = Fin 0, avgTS = Fin 0, overRate = Fin 0, last10Avg = Fin 0, avgFGA = Fin 0,
     avgFG_Pct = Fin fg, avg3P_Pct = Fin 0, avgFouls = Fin 0, avgFTM = Fin 0,
     avgTurnovers = Fin 0, avgFTA = Fin 0, avgRebounds = Fin 0\<rparr>"

definition run_and_gun :: TeamStats where
  "run_and_gun =
    \<lparr>name = ''Denver Nuggets'', gamesPlayed = Some (Fin 40), avgPointsFor = Fin 120,
     avgPointsAgainst = Fin 118, avgPace = Fin 101, avgTS = Fin 58, overRate = Fin 60,
     last10Avg = Fin 0, avgFGA = Fin 90, avgFG_Pct = Fin 47, avg3P_Pct = Fin 32,
     avgFouls = Fin 21, avgFTM = Fin 18, avgTurnovers = Fin 13, avgFTA = Fin 23,
     avgRebounds = Fin 44\<rparr>"

definition average_team :: TeamStats where
  "average_team =
    \<lparr>name = ''Miami Heat'', gamesPlayed = Some (Fin 40), avgPointsFor = Fin 110,
     avgPointsAgainst = Fin 110, avgPace = Fin 98, avgTS = Fin 56, overRate = Fin 50,
     last10Avg = Fin 0, avgFGA = Fin 85, avgFG_Pct = Fin 46, avg3P_Pct = Fin 36,
     avgFouls = Fin 19, avgFTM = Fin 16, avgTurnovers = Fin 13, avgFTA = Fin 21,
     avgRebounds = Fin 43\<rparr>"

section \<open>Properties\<close>

subsection \<open>Numbers and sorting\<close>

lemma jlt_irrefl [simp]: "\<not> jlt a a"
  by (cases a) auto

lemma jlt_asym: "jlt a b \<Longrightarrow> \<not> jlt b a"
  by (cases a; cases b) auto

lemma jlt_total: "a \<noteq> NaN \<Longrightarrow> b \<noteq> NaN \<Longrightarrow> jlt a b \<or> a = b \<or> jlt b a"
  by (cases a; cases b) auto

lemma jadd_zero_right [simp]: "jadd a (Fin 0) = a"
  by (cases a) auto

lemma set_js_insort [simp]: "set (js_insort cmp x ys) = insert x (set ys)"
  by (induction ys) auto

lemma set_js_sort [simp]: "set (js_sort cmp xs) = set xs"
  by (induction xs) (auto simp: js_sort_def)

lemma length_js_insort [simp]: "length (js_insort cmp x ys) = Suc (length ys)"
  by (induction ys) auto

lemma length_js_sort [simp]: "length (js_sort cmp xs) = length xs"
  by (induction xs) (auto simp: js_sort_def)

lemma mset_js_insort [simp]: "mset (js_insort cmp x ys) = add_mset x (mset ys)"
  by (induction ys) auto

lemma mset_js_sort [simp]: "mset (js_sort cmp xs) = mset xs"
  by (induction xs) (auto simp: js_sort_def)

subsection \<open>Rounding to doubles\<close>

lemma pow2_powr: "pow2 k = 2 powr (real_of_int k)"
proof (cases "0 \<le> k")
  case True
  then show ?thesis
    by (simp add: pow2_def powr_realpow [symmetric])
next
  case False
  then have "real_of_int k = - real (nat (- k))"
    by simp
  then show ?thesis
    using False by (simp add: pow2_def powr_minus powr_realpow [symmetric] divide_inverse)
qed

lemma binade_eq:
  assumes "pow2 e \<le> a" and "a < pow2 (e + 1)" and "- 1022 \<le> e"
  shows "binade a = e"
proof -
  have "0 < pow2 e"
    by (simp add: pow2_def)
  with assms(1) have pos: "0 < a"
    by linarith
  have lo: "real_of_int e \<le> log 2 a"
    using assms(1) pos by (simp add: pow2_powr le_log_iff)
  have hi: "log 2 a < real_of_int e + 1"
    using assms(2) pos by (simp add: pow2_powr log_less_iff)
  have "\<lfloor>log 2 a\<rfloor> = e"
    using lo hi by linarith
  then show ?thesis
    using assms(3) by (simp add: binade_def)
qed

text \<open>
  Evaluating \<open>rd\<close>: with the exponent \<open>e\<close> of \<open>x\<close> and the rounded multiple \<open>n\<close> given, the
  premises are checked by computation.
\<close>

lemma rd_eval:
  assumes "x \<noteq> 0" and "pow2 e \<le> \<bar>x\<bar>" and "\<bar>x\<bar> < pow2 (e + 1)" and "- 1022 \<le> e"
    and "rne (\<bar>x\<bar> / pow2 (e - 52)) = n" and "real_of_int n * pow2 (e - 52) < pow2 1024"
  shows "rd x = Fin ((if x < 0 then - 1 else 1) * (real_of_int n * pow2 (e - 52)))"
proof -
  have b: "binade \<bar>x\<bar> = e"
    using assms(2,3,4) by (rule binade_eq)
  show ?thesis
    unfolding rd_def Let_def b assms(5)
    using assms(1,6) by simp
qed

lemma rd_zero [simp]: "rd 0 = Fin 0"
  by (simp add: rd_def)

lemma rd_examples:
  "rd 0.1 = Fin (3602879701896397 / 36028797018963968)"
  "rd 9007199254740993 = Fin 9007199254740992"
  "rd 100 = Fin 100"
  using rd_eval [of "0.1" "- 4" 7205759403792794]
    rd_eval [of 9007199254740993 53 4503599627370496]
    rd_eval [of 100 6 7036874417766400]
  by (simp_all add: pow2_def rne_def)

lemma rd_191: "rd 1.91 = Fin (8601875288277647 / 4503599627370496)"
  using rd_eval [of "1.91" 0 8601875288277647]
  by (simp add: pow2_def rne_def)

text \<open>
  The double operations of a bet of 100 won at the odds 1.91 and of a bet of 100 lost,
  in both orders, and of the ROI of the two.
\<close>

lemma win_at_191:
  "dsub (Fin (8601875288277647 / 4503599627370496)) (Fin 1) =
     Fin (4098275660907151 / 4503599627370496)"
  "dmul (Fin 100) (Fin (4098275660907151 / 4503599627370496)) =
     Fin (6403555720167423 / 70368744177664)"
  using rd_eval [of "8601875288277647 / 4503599627370496 - 1" "- 1" 8196551321814302]
    rd_eval [of "100 * (4098275660907151 / 4503599627370496)" 6 6403555720167423]
  by (simp_all add: dsub_def dmul_def pow2_def rne_def)

lemma win_and_loss:
  "dsub (Fin 0) (Fin 100) = Fin (- 100)"
  "dadd (Fin (- 100)) (Fin (6403555720167423 / 70368744177664)) = Fin (- 9 - 1 / 2 ^ 46)"
  "dadd (Fin 0) (Fin (6403555720167423 / 70368744177664)) =
     Fin (6403555720167423 / 70368744177664)"
  "dsub (Fin (6403555720167423 / 70368744177664)) (Fin 100) = Fin (- 9 - 1 / 2 ^ 46)"
  using rd_eval [of "- 100" 6 7036874417766400]
    rd_eval [of "- 100 + 6403555720167423 / 70368744177664" 3 5066549580791816]
    rd_eval [of "6403555720167423 / 70368744177664" 6 6403555720167423]
  by (simp_all add: dsub_def dadd_def pow2_def rne_def)

lemma roi_of_win_and_loss:
  "dmul (Fin 2) (Fin 100) = Fin 200"
  "ddiv (Fin (- 9 - 1 / 2 ^ 46)) (Fin 200) = Fin (- (1621295865853381 / 36028797018963968))"
  "dmul (Fin (- (1621295865853381 / 36028797018963968))) (Fin 100) = Fin (- 4.5 - 1 / 2 ^ 47)"
  using rd_eval [of 200 7 7036874417766400]
    rd_eval [of "(- 9 - 1 / 2 ^ 46) / 200" "- 5" 6485183463413524]
    rd_eval [of "- (1621295865853381 / 36028797018963968) * 100" 2 5066549580791816]
  by (simp_all add: dmul_def ddiv_def pow2_def rne_def)

lemma roi_of_push:
  "dmul (Fin 1) (Fin 100) = Fin 100"
  "ddiv (Fin 0) (Fin 100) = Fin 0"
  "dmul (Fin 0) (Fin 100) = Fin 0"
  by (simp_all add: dmul_def ddiv_def rd_examples)

lemmas double_eval =
  rd_191 [simplified] win_at_191 [simplified] win_and_loss [simplified]
  roi_of_win_and_loss [simplified] roi_of_push

subsection \<open>Numeric extraction\<close>

lemma p_absent: "p None = Fin 0" "p (Some []) = Fin 0"
  by (simp_all add: p_def parseInt_def is_ws_def is_digit_def digits_value_def)

lemma parseInt_no_digit:
  "\<not> is_ws c \<Longrightarrow> \<not> is_digit c \<Longrightarrow> c \<noteq> CHR ''-'' \<Longrightarrow> c \<noteq> CHR ''+'' \<Longrightarrow>
   p (Some (c # s)) = NaN"
  by (simp add: p_def parseInt_def)

text \<open>
  C7. The claim: for every optional string the numeric extraction helper returns an integer,
  0 when the input is absent or does not parse. The helper \<open>p\<close> returns 0 for an absent and
  for an empty string and the integer read from a string with leading digits, but for a
  string without a leading integer, such as \<open>abc\<close>, it returns \<open>NaN\<close>, not 0.
\<close>

theorem p_malformed_is_NaN:
  "p (Some ''abc'') = NaN \<and> p (Some ''abc'') \<noteq> Fin 0 \<and>
   p None = Fin 0 \<and> p (Some []) = Fin 0 \<and> p (Some ''112'') = Fin 112 \<and>
   p (Some '' -7x'') = Fin (- 7)"
  by (simp add: p_def parseInt_def is_ws_def is_digit_def digits_value_def)

subsection \<open>Match processor\<close>

lemma set_processMatches: "set (processMatches h rawData) = processMatch h ` set rawData"
  by (simp add: processMatches_def)

lemma processMatch_fields:
  "totalScore (processMatch h r) = jadd (homeScore (processMatch h r)) (awayScore (processMatch h r))"
  "result (processMatch h r) = OVER \<longleftrightarrow> jgt (totalScore (processMatch h r)) (line (processMatch h r))"
  "result (processMatch h r) = UNDER \<longleftrightarrow> jlt (totalScore (processMatch h r)) (line (processMatch h r))"
  "result (processMatch h r) = PUSH \<longleftrightarrow>
     \<not> jgt (totalScore (processMatch h r)) (line (processMatch h r)) \<and>
     \<not> jlt (totalScore (processMatch h r)) (line (processMatch h r))"
  using jlt_asym by (auto simp: processMatch_def Let_def jgt_def)

lemma regulationTotal_processMatch:
  "regulationTotal (processMatch h r) =
     jadd (jadd (jadd (jadd (jadd (Fin 0) (period_points q_home_score r ''Q1''))
                   (period_points q_home_score r ''Q2''))
              (period_points q_home_score r ''Q3''))
         (period_points q_home_score r ''Q4''))
       (jadd (jadd (jadd (jadd (Fin 0) (period_points q_away_score r ''Q1''))
                   (period_points q_away_score r ''Q2''))
              (period_points q_away_score r ''Q3''))
         (period_points q_away_score r ''Q4''))"
  by (simp add: processMatch_def Let_def regScore_def quarters_def period_points_def)

lemma regulationTotal_ignores_OT:
  "regulationTotal (processMatch h (r\<lparr>quarter_scores := (quarter_scores r)(''OT'' := x)\<rparr>)) =
   regulationTotal (processMatch h r)"
  by (simp add: regulationTotal_processMatch period_points_def)

lemma processMatch_sel:
  "pm_id (processMatch h r) = match_id r"
  "date (processMatch h r) = Date_time h (iso_date (date_str r))"
  "homeTeam (processMatch h r) = home_team r"
  "awayTeam (processMatch h r) = away_team r"
  "homeScore (processMatch h r) = p (Some (home_score r))"
  "awayScore (processMatch h r) = p (Some (away_score r))"
  "totalScore (processMatch h r) = jadd (p (Some (home_score r))) (p (Some (away_score r)))"
  "line (processMatch h r) = total_line (line_odds r)"
  "overOdds (processMatch h r) =
     (case over_odds (line_odds r) of Some ov \<Rightarrow> jor ov (rd 1.91) | None \<Rightarrow> rd 1.91)"
  "underOdds (processMatch h r) =
     (case under_odds (line_odds r) of Some un \<Rightarrow> jor un (rd 1.91) | None \<Rightarrow> rd 1.91)"
  "homeTS (processMatch h r) =
     gameTS (p (Some (home_score r))) (homeFGA (gameTotals r)) (homeFTA (gameTotals r))"
  "awayTS (processMatch h r) =
     gameTS (p (Some (away_score r))) (awayFGA (gameTotals r)) (awayFTA (gameTotals r))"
  "homeFG_Pct (processMatch h r) =
     (if jgt (homeFGA (gameTotals r)) (Fin 0)
      then jmul (jdiv (homeFGM (gameTotals r)) (homeFGA (gameTotals r))) (Fin 100) else Fin 0)"
  "awayFG_Pct (processMatch h r) =
     (if jgt (awayFGA (gameTotals r)) (Fin 0)
      then jmul (jdiv (awayFGM (gameTotals r)) (awayFGA (gameTotals r))) (Fin 100) else Fin 0)"
  "result (processMatch h r) =
     (if jlt (jadd (p (Some (home_score r))) (p (Some (away_score r)))) (total_line (line_odds r))
      then UNDER
      else if jgt (jadd (p (Some (home_score r))) (p (Some (away_score r))))
                (total_line (line_odds r))
      then OVER else PUSH)"
  "isOT (processMatch h r) = (quarter_scores r ''OT'' \<noteq> None)"
  "quarterlyTotals (processMatch h r) =
     map (\<lambda>q. case quarter_scores r q of
                Some s \<Rightarrow> jadd (p (Some (q_home_score s))) (p (Some (q_away_score s)))
              | None \<Rightarrow> Fin 0) quarters"
  "homeQScores (processMatch h r) =
     map (\<lambda>q. case quarter_scores r q of
                Some s \<Rightarrow> p (Some (q_home_score s)) | None \<Rightarrow> Fin 0) quarters"
  "awayQScores (processMatch h r) =
     map (\<lambda>q. case quarter_scores r q of
                Some s \<Rightarrow> p (Some (q_away_score s)) | None \<Rightarrow> Fin 0) quarters"
  by (simp_all add: processMatch_def Let_def)

lemmas p_eval = p_def parseInt_def is_ws_def is_digit_def digits_value_def

lemma sample_dates:
  "Date_time sample_host (iso_date ''09.01.2025 19:00'') = Fin 20250109"
  "Date_time sample_host (iso_date ''10.01.2025 19:00'') = Fin 20250110"
  "Date_time sample_host (iso_date ''11.01.2025 19:00'') = Fin 20250111"
  "Date_time sample_host (iso_date ''12.01.2025 19:00'') = Fin 20250112"
  by (simp_all add: sample_host_def iso_date_def parseInt_def is_ws_def is_digit_def
      digits_value_def)

lemma plain_match_sel:
  "match_id (plain_match mid d hteam ateam hs ascore lv) = mid"
  "date_str (plain_match mid d hteam ateam hs ascore lv) = d"
  "home_team (plain_match mid d hteam ateam hs ascore lv) = hteam"
  "away_team (plain_match mid d hteam ateam hs ascore lv) = ateam"
  "home_score (plain_match mid d hteam ateam hs ascore lv) = hs"
  "away_score (plain_match mid d hteam ateam hs ascore lv) = ascore"
  "quarter_scores (plain_match mid d hteam ateam hs ascore lv) = Map.empty"
  "quarter_stats (plain_match mid d hteam ateam hs ascore lv) = []"
  "line_odds (plain_match mid d hteam ateam hs ascore lv) =
     \<lparr>total_line = Fin lv, over_odds = None, under_odds = None\<rparr>"
  by (simp_all add: plain_match_def)

text \<open>
  C1 (as amended). Every processed match \<open>m\<close> returned by \<open>processMatches\<close> comes from a raw
  record \<open>r\<close>; its \<open>totalScore\<close> is \<open>homeScore + awayScore\<close>; its \<open>result\<close> is \<open>OVER\<close> exactly
  when \<open>totalScore > line\<close>, \<open>UNDER\<close> exactly when \<open>totalScore < line\<close>, and \<open>PUSH\<close> exactly
  when neither holds, which for a \<open>totalScore\<close> and a \<open>line\<close> that are not \<open>NaN\<close> means that
  they are equal; its \<open>regulationTotal\<close> is the sum of the home and away points of the
  periods Q1 to Q4 of \<open>r\<close>, whatever the overtime entry of \<open>r\<close> is.
\<close>

theorem processMatches_result:
  assumes "m \<in> set (processMatches h rawData)"
  shows "\<exists>r \<in> set rawData. m = processMatch h r \<and>
    homeScore m = p (Some (home_score r)) \<and>
    awayScore m = p (Some (away_score r)) \<and>
    line m = total_line (line_odds r) \<and>
    totalScore m = jadd (homeScore m) (awayScore m) \<and>
    (result m = OVER \<longleftrightarrow> jgt (totalScore m) (line m)) \<and>
    (result m = UNDER \<longleftrightarrow> jlt (totalScore m) (line m)) \<and>
    (result m = PUSH \<longleftrightarrow> \<not> jgt (totalScore m) (line m) \<and> \<not> jlt (totalScore m) (line m)) \<and>
    (totalScore m \<noteq> NaN \<and> line m \<noteq> NaN \<longrightarrow>
       (result m = PUSH \<longleftrightarrow> totalScore m = line m)) \<and>
    regulationTotal m =
      jadd (jadd (jadd (jadd (jadd (Fin 0) (period_points q_home_score r ''Q1''))
                    (period_points q_home_score r ''Q2''))
               (period_points q_home_score r ''Q3''))
          (period_points q_home_score r ''Q4''))
        (jadd (jadd (jadd (jadd (Fin 0) (period_points q_away_score r ''Q1''))
                    (period_points q_away_score r ''Q2''))
               (period_points q_away_score r ''Q3''))
          (period_points q_away_score r ''Q4'')) \<and>
    (\<forall>x. regulationTotal (processMatch h (r\<lparr>quarter_scores := (quarter_scores r)(''OT'' := x)\<rparr>))
        = regulationTotal m)"
proof -
  from assms obtain r where r: "r \<in> set rawData" and m: "m = processMatch h r"
    by (auto simp: set_processMatches)
  have scores: "homeScore m = p (Some (home_score r))" "awayScore m = p (Some (away_score r))"
    "line m = total_line (line_odds r)"
    by (simp_all add: m processMatch_def Let_def)
  have res: "totalScore m = jadd (homeScore m) (awayScore m)"
    "result m = OVER \<longleftrightarrow> jgt (totalScore m) (line m)"
    "result m = UNDER \<longleftrightarrow> jlt (totalScore m) (line m)"
    "result m = PUSH \<longleftrightarrow> \<not> jgt (totalScore m) (line m) \<and> \<not> jlt (totalScore m) (line m)"
    by (simp_all add: m processMatch_fields)
  have push: "totalScore m \<noteq> NaN \<and> line m \<noteq> NaN \<longrightarrow>
      (result m = PUSH \<longleftrightarrow> totalScore m = line m)"
    using jlt_total [of "totalScore m" "line m"]
    by (auto simp: res(4) jgt_def)
  have reg: "regulationTotal m =
      jadd (jadd (jadd (jadd (jadd (Fin 0) (period_points q_home_score r ''Q1''))
                    (period_points q_home_score r ''Q2''))
               (period_points q_home_score r ''Q3''))
          (period_points q_home_score r ''Q4''))
        (jadd (jadd (jadd (jadd (Fin 0) (period_points q_away_score r ''Q1''))
                    (period_points q_away_score r ''Q2''))
               (period_points q_away_score r ''Q3''))
          (period_points q_away_score r ''Q4''))"
    by (simp add: m regulationTotal_processMatch)
  have ot: "\<forall>x. regulationTotal
        (processMatch h (r\<lparr>quarter_scores := (quarter_scores r)(''OT'' := x)\<rparr>))
      = regulationTotal m"
    by (simp add: m regulationTotal_ignores_OT)
  from m scores res(1) res(2) res(3) res(4) push reg ot
  show ?thesis
    by (intro bexI [OF _ r] conjI)
qed

theorem processMatches_result_witness:
  "processMatch sample_host overtime_match \<in> set (processMatches sample_host [overtime_match]) \<and>
   totalScore (processMatch sample_host overtime_match) = Fin 220 \<and>
   line (processMatch sample_host overtime_match) = Fin 220 \<and>
   result (processMatch sample_host overtime_match) = PUSH \<and>
   regulationTotal (processMatch sample_host overtime_match) = Fin 200"
  using processMatches_result [of "processMatch sample_host overtime_match" sample_host
      "[overtime_match]"]
  by (simp add: set_processMatches processMatch_sel overtime_match_def p_eval period_points_def)

text \<open>
  The claim as stated asks for \<open>PUSH\<close> only when the total equals the line. A record
  without a usable line (its line compares like \<open>NaN\<close>) has a total of 210 that is neither
  above nor below the line, and the result is \<open>PUSH\<close> although total and line differ; the
  same happens when a score string does not parse and the total is \<open>NaN\<close>.
\<close>

theorem push_without_equality:
  "totalScore (processMatch sample_host no_line_match) = Fin 210 \<and>
   line (processMatch sample_host no_line_match) = NaN \<and>
   result (processMatch sample_host no_line_match) = PUSH \<and>
   \<not> jeq (totalScore (processMatch sample_host no_line_match))
          (line (processMatch sample_host no_line_match)) \<and>
   processMatches sample_host [bad_score_match] = [processMatch sample_host bad_score_match] \<and>
   totalScore (processMatch sample_host bad_score_match) = NaN \<and>
   line (processMatch sample_host bad_score_match) = Fin 200 \<and>
   result (processMatch sample_host bad_score_match) = PUSH \<and>
   \<not> jeq (totalScore (processMatch sample_host bad_score_match))
          (line (processMatch sample_host bad_score_match))"
  by (simp add: processMatches_def js_sort_def processMatch_sel bad_score_match_def
      no_line_match_def plain_match_def p_eval jeq_def jgt_def)

subsection \<open>True shooting\<close>

lemma calculateTS_guarded:
  "calculateTS (Fin 0) stats = Fin 0"
  "calculateTS points None = Fin 0"
  "jmul (Fin 2) (jadd (p (Some (field_goals_attempted s)))
                      (jmul (Fin 0.44) (p (Some (free_throws_attempted s))))) = Fin 0
   \<Longrightarrow> calculateTS points (Some s) = Fin 0"
  by (simp_all add: calculateTS_def jeq_def Let_def split: option.splits)

lemma gameTS_zero_attempts: "0 < s \<Longrightarrow> gameTS (Fin s) (Fin 0) (Fin 0) = PInf"
  by (simp add: gameTS_def jor_def truthy_def inf_of_sign_def)

lemma gameTS_zero_points: "gameTS (Fin 0) fga fta = Fin 0"
  by (cases fga; cases fta) (auto simp: gameTS_def jor_def truthy_def inf_of_sign_def)

text \<open>
  C8. The claim: every true-shooting computation returns 0 when the points are 0 or the
  denominator \<open>2 * (FGA + 0.44 * FTA)\<close> is 0, and no input gives an infinite value.
  \<open>calculateTS\<close> tests the denominator (\<open>calculateTS_guarded\<close>); the game-level value in
  \<open>processMatches\<close> relies on \<open>|| 0\<close>, which replaces \<open>NaN\<close> and 0 only: for a game with a
  positive score and no recorded attempts the denominator is 0 and \<open>homeTS\<close> and \<open>awayTS\<close>
  are \<open>Infinity\<close>.
\<close>

theorem game_TS_infinite_without_attempts:
  "homeFGA (gameTotals no_stats_match) = Fin 0 \<and>
   homeFTA (gameTotals no_stats_match) = Fin 0 \<and>
   homeScore (processMatch sample_host no_stats_match) = Fin 110 \<and>
   homeTS (processMatch sample_host no_stats_match) = PInf \<and>
   awayTS (processMatch sample_host no_stats_match) = PInf \<and>
   map homeTS (processMatches sample_host [no_stats_match]) = [PInf]"
  by (simp add: processMatches_def js_sort_def processMatch_sel no_stats_match_def
      plain_match_sel p_eval gameTotals_def zeroTotals_def gameTS_def jor_def truthy_def
      inf_of_sign_def)

subsection \<open>Matchup analyzer\<close>

lemma not_above_115_and_below_108: "jgt x (Fin 115) \<Longrightarrow> \<not> jlt x (Fin 108)"
  by (cases x) (auto simp: jgt_def)

lemma analyzeMatchup_types:
  "map type (analyzeMatchup h t1 t2) =
     (if jgt (jadd (avgFGA t1) (avgFGA t2)) (Fin 175) then [PACE] else []) @
     (if jlt (avg3P_Pct t1) (Fin 33) \<and> jlt (avg3P_Pct t2) (Fin 33) then [BRICK] else []) @
     (if jgt (jadd (avgFouls t1) (avgFouls t2)) (Fin 40) \<and>
         jgt (jadd (avgFTM t1) (avgFTM t2)) (Fin 35) then [FOUL] else []) @
     (if jgt (avgPointsFor t1) (Fin 115) \<and> jgt (avgPointsAgainst t2) (Fin 115)
      then [MISMATCH] else []) @
     (if jgt (avgPointsFor t2) (Fin 115) \<and> jgt (avgPointsAgainst t1) (Fin 115)
      then [MISMATCH] else []) @
     (if jlt (avgPointsAgainst t1) (Fin 108) \<and> jlt (avgPointsAgainst t2) (Fin 108)
      then [DEFENSE] else [])"
  by (simp add: analyzeMatchup_def Let_def mismatch_def if_distrib [of "map type"]
      split del: if_split cong: if_cong)

lemma analyzeMatchup_five_possible:
  "map type (analyzeMatchup h run_and_gun run_and_gun) = [PACE, BRICK, FOUL, MISMATCH, MISMATCH]"
  by (simp add: analyzeMatchup_types) (simp add: run_and_gun_def jgt_def)

lemma analyzeMatchup_none_possible: "analyzeMatchup h average_team average_team = []"
  by (simp add: analyzeMatchup_def average_team_def jgt_def)

lemma analyzeMatchup_mismatch_titles:
  "map title (filter (\<lambda>i. type i = MISMATCH) (analyzeMatchup h t1 t2)) =
     (if jgt (avgPointsFor t1) (Fin 115) \<and> jgt (avgPointsAgainst t2) (Fin 115)
      then [name t1 @ '' Scoring Potential''] else []) @
     (if jgt (avgPointsFor t2) (Fin 115) \<and> jgt (avgPointsAgainst t1) (Fin 115)
      then [name t2 @ '' Scoring Potential''] else [])"
  by (simp add: analyzeMatchup_def Let_def mismatch_def)

lemma analyzeMatchup_length:
  "length (analyzeMatchup h t1 t2) =
     (if jgt (jadd (avgFGA t1) (avgFGA t2)) (Fin 175) then 1 else 0) +
     (if jlt (avg3P_Pct t1) (Fin 33) \<and> jlt (avg3P_Pct t2) (Fin 33) then 1 else 0) +
     (if jgt (jadd (avgFouls t1) (avgFouls t2)) (Fin 40) \<and>
         jgt (jadd (avgFTM t1) (avgFTM t2)) (Fin 35) then 1 else 0) +
     (if jgt (avgPointsFor t1) (Fin 115) \<and> jgt (avgPointsAgainst t2) (Fin 115)
      then 1 else 0) +
     (if jgt (avgPointsFor t2) (Fin 115) \<and> jgt (avgPointsAgainst t1) (Fin 115)
      then 1 else 0) +
     (if jlt (avgPointsAgainst t1) (Fin 108) \<and> jlt (avgPointsAgainst t2) (Fin 108)
      then 1 else 0)"
proof -
  have "length (analyzeMatchup h t1 t2) = length (map type (analyzeMatchup h t1 t2))"
    by simp
  also have "\<dots> =
     (if jgt (jadd (avgFGA t1) (avgFGA t2)) (Fin 175) then 1 else 0) +
     (if jlt (avg3P_Pct t1) (Fin 33) \<and> jlt (avg3P_Pct t2) (Fin 33) then 1 else 0) +
     (if jgt (jadd (avgFouls t1) (avgFouls t2)) (Fin 40) \<and>
         jgt (jadd (avgFTM t1) (avgFTM t2)) (Fin 35) then 1 else 0) +
     (if jgt (avgPointsFor t1) (Fin 115) \<and> jgt (avgPointsAgainst t2) (Fin 115)
      then 1 else 0) +
     (if jgt (avgPointsFor t2) (Fin 115) \<and> jgt (avgPointsAgainst t1) (Fin 115)
      then 1 else 0) +
     (if jlt (avgPointsAgainst t1) (Fin 108) \<and> jlt (avgPointsAgainst t2) (Fin 108)
      then 1 else 0)"
    unfolding analyzeMatchup_types by simp
  finally show ?thesis .
qed

text \<open>
  C9. For every pair of team statistics \<open>analyzeMatchup\<close> returns at most five insights.
  Each rule fires exactly when its own trigger holds, whatever the other rules do: the
  types of the returned insights are the concatenation of six slots, one per rule and in
  the order of the rules, each holding its insight exactly when the trigger of that rule
  holds, so the number of insights is the number of triggers that hold. The two mismatch
  rules are two of the slots: each adds its own insight, titled with its own team, and both
  do when both triggers hold. The defensive-grind rule (both teams allow less than 108)
  excludes both mismatch rules (a team allows more than 115), which leaves at most five;
  five are returned for two fast, foul-prone, poor-shooting and poor-defending teams, and
  none for two average ones.
\<close>

theorem analyzeMatchup_at_most_five:
  "length (analyzeMatchup h t1 t2) \<le> 5 \<and>
   (PACE \<in> set (map type (analyzeMatchup h t1 t2)) \<longleftrightarrow>
      jgt (jadd (avgFGA t1) (avgFGA t2)) (Fin 175)) \<and>
   (BRICK \<in> set (map type (analyzeMatchup h t1 t2)) \<longleftrightarrow>
      jlt (avg3P_Pct t1) (Fin 33) \<and> jlt (avg3P_Pct t2) (Fin 33)) \<and>
   (FOUL \<in> set (map type (analyzeMatchup h t1 t2)) \<longleftrightarrow>
      jgt (jadd (avgFouls t1) (avgFouls t2)) (Fin 40) \<and>
      jgt (jadd (avgFTM t1) (avgFTM t2)) (Fin 35)) \<and>
   (MISMATCH \<in> set (map type (analyzeMatchup h t1 t2)) \<longleftrightarrow>
      (jgt (avgPointsFor t1) (Fin 115) \<and> jgt (avgPointsAgainst t2) (Fin 115)) \<or>
      (jgt (avgPointsFor t2) (Fin 115) \<and> jgt (avgPointsAgainst t1) (Fin 115))) \<and>
   (DEFENSE \<in> set (map type (analyzeMatchup h t1 t2)) \<longleftrightarrow>
      jlt (avgPointsAgainst t1) (Fin 108) \<and> jlt (avgPointsAgainst t2) (Fin 108)) \<and>
   map type (analyzeMatchup h t1 t2) =
     (if jgt (jadd (avgFGA t1) (avgFGA t2)) (Fin 175) then [PACE] else []) @
     (if jlt (avg3P_Pct t1) (Fin 33) \<and> jlt (avg3P_Pct t2) (Fin 33) then [BRICK] else []) @
     (if jgt (jadd (avgFouls t1) (avgFouls t2)) (Fin 40) \<and>
         jgt (jadd (avgFTM t1) (avgFTM t2)) (Fin 35) then [FOUL] else []) @
     (if jgt (avgPointsFor t1) (Fin 115) \<and> jgt (avgPointsAgainst t2) (Fin 115)
      then [MISMATCH] else []) @
     (if jgt (avgPointsFor t2) (Fin 115) \<and> jgt (avgPointsAgainst t1) (Fin 115)
      then [MISMATCH] else []) @
     (if jlt (avgPointsAgainst t1) (Fin 108) \<and> jlt (avgPointsAgainst t2) (Fin 108)
      then [DEFENSE] else []) \<and>
   length (analyzeMatchup h t1 t2) =
     (if jgt (jadd (avgFGA t1) (avgFGA t2)) (Fin 175) then 1 else 0) +
     (if jlt (avg3P_Pct t1) (Fin 33) \<and> jlt (avg3P_Pct t2) (Fin 33) then 1 else 0) +
     (if jgt (jadd (avgFouls t1) (avgFouls t2)) (Fin 40) \<and>
         jgt (jadd (avgFTM t1) (avgFTM t2)) (Fin 35) then 1 else 0) +
     (if jgt (avgPointsFor t1) (Fin 115) \<and> jgt (avgPointsAgainst t2) (Fin 115)
      then 1 else 0) +
     (if jgt (avgPointsFor t2) (Fin 115) \<and> jgt (avgPointsAgainst t1) (Fin 115)
      then 1 else 0) +
     (if jlt (avgPointsAgainst t1) (Fin 108) \<and> jlt (avgPointsAgainst t2) (Fin 108)
      then 1 else 0) \<and>
   map title (filter (\<lambda>i. type i = MISMATCH) (analyzeMatchup h t1 t2)) =
     (if jgt (avgPointsFor t1) (Fin 115) \<and> jgt (avgPointsAgainst t2) (Fin 115)
      then [name t1 @ '' Scoring Potential''] else []) @
     (if jgt (avgPointsFor t2) (Fin 115) \<and> jgt (avgPointsAgainst t1) (Fin 115)
      then [name t2 @ '' Scoring Potential''] else []) \<and>
   \<not> (DEFENSE \<in> set (map type (analyzeMatchup h t1 t2)) \<and>
      MISMATCH \<in> set (map type (analyzeMatchup h t1 t2))) \<and>
   map type (analyzeMatchup h run_and_gun run_and_gun) =
     [PACE, BRICK, FOUL, MISMATCH, MISMATCH] \<and>
   analyzeMatchup h average_team average_team = []"
proof -
  have "length (map type (analyzeMatchup h t1 t2)) \<le> 5"
    unfolding analyzeMatchup_types
    using not_above_115_and_below_108 [of "avgPointsAgainst t1"]
      not_above_115_and_below_108 [of "avgPointsAgainst t2"]
    by simp
  then have len: "length (analyzeMatchup h t1 t2) \<le> 5"
    by simp
  have members: "(PACE \<in> set (map type (analyzeMatchup h t1 t2)) \<longleftrightarrow>
      jgt (jadd (avgFGA t1) (avgFGA t2)) (Fin 175)) \<and>
   (BRICK \<in> set (map type (analyzeMatchup h t1 t2)) \<longleftrightarrow>
      jlt (avg3P_Pct t1) (Fin 33) \<and> jlt (avg3P_Pct t2) (Fin 33)) \<and>
   (FOUL \<in> set (map type (analyzeMatchup h t1 t2)) \<longleftrightarrow>
      jgt (jadd (avgFouls t1) (avgFouls t2)) (Fin 40) \<and>
      jgt (jadd (avgFTM t1) (avgFTM t2)) (Fin 35)) \<and>
   (MISMATCH \<in> set (map type (analyzeMatchup h t1 t2)) \<longleftrightarrow>
      (jgt (avgPointsFor t1) (Fin 115) \<and> jgt (avgPointsAgainst t2) (Fin 115)) \<or>
      (jgt (avgPointsFor t2) (Fin 115) \<and> jgt (avgPointsAgainst t1) (Fin 115))) \<and>
   (DEFENSE \<in> set (map type (analyzeMatchup h t1 t2)) \<longleftrightarrow>
      jlt (avgPointsAgainst t1) (Fin 108) \<and> jlt (avgPointsAgainst t2) (Fin 108))"
    unfolding analyzeMatchup_types by simp
  have excl: "\<not> (DEFENSE \<in> set (map type (analyzeMatchup h t1 t2)) \<and>
      MISMATCH \<in> set (map type (analyzeMatchup h t1 t2)))"
    unfolding analyzeMatchup_types
    using not_above_115_and_below_108 [of "avgPointsAgainst t1"]
      not_above_115_and_below_108 [of "avgPointsAgainst t2"]
    by auto
  from len members analyzeMatchup_types [of h t1 t2] analyzeMatchup_length [of h t1 t2]
    analyzeMatchup_mismatch_titles [of h t1 t2] excl analyzeMatchup_five_possible [of h]
    analyzeMatchup_none_possible [of h]
  show ?thesis
    by (intro conjI) (elim conjE, assumption)+
qed

theorem analyzeMatchup_at_most_five_witness:
  "length (analyzeMatchup sample_host run_and_gun run_and_gun) = 5 \<and>
   map title (analyzeMatchup sample_host run_and_gun run_and_gun) =
     [''Pace Clash: High Volume'', ''Brick City Warning'', ''Whistle Heavy'',
      ''Denver Nuggets Scoring Potential'', ''Denver Nuggets Scoring Potential''] \<and>
   map type (analyzeMatchup sample_host (team_fg ''Utah Jazz'' 120 100 45)
      (team_fg ''Chicago Bulls'' 100 120 45)) = [BRICK, MISMATCH] \<and>
   map type (analyzeMatchup sample_host (team_fg ''Utah Jazz'' 120 100 45)
      (team_fg ''Chicago Bulls'' 100 100 45)) = [BRICK, DEFENSE]"
  using analyzeMatchup_at_most_five [of sample_host run_and_gun run_and_gun]
    analyzeMatchup_at_most_five [of sample_host "team_fg ''Utah Jazz'' 120 100 45"
      "team_fg ''Chicago Bulls'' 100 120 45"]
    analyzeMatchup_at_most_five [of sample_host "team_fg ''Utah Jazz'' 120 100 45"
      "team_fg ''Chicago Bulls'' 100 100 45"]
  by (simp add: analyzeMatchup_def mismatch_def run_and_gun_def team_fg_def jgt_def)

subsection \<open>Relevant history\<close>

lemma sample_dates_more:
  "Date_time sample_host (iso_date ''10.01.2025 21:30'') = Fin 20250110"
  "Date_time sample_host (iso_date ''08.01.2025 20:00'') = Fin 20250108"
  by (simp_all add: sample_host_def iso_date_def parseInt_def is_ws_def is_digit_def
      digits_value_def)

text \<open>
  C5. The relevant history of a target match holds exactly the matches of the history whose
  date is strictly earlier than the target's and that have one of the target's two teams as
  home or away team, each as often as it occurs in the history; a match with the target's
  date is never in it.
\<close>

theorem relevantHistory_strictly_earlier:
  "(m \<in> set (relevantHistory match allMatches) \<longleftrightarrow>
      m \<in> set allMatches \<and> jlt (date m) (date match) \<and>
      (homeTeam m = homeTeam match \<or> awayTeam m = homeTeam match \<or>
       homeTeam m = awayTeam match \<or> awayTeam m = awayTeam match)) \<and>
   \<not> (m \<in> set (relevantHistory match allMatches) \<and> date m = date match) \<and>
   mset (relevantHistory match allMatches) =
     filter_mset (\<lambda>m. jlt (date m) (date match) \<and>
         (homeTeam m = homeTeam match \<or> awayTeam m = homeTeam match \<or>
          homeTeam m = awayTeam match \<or> awayTeam m = awayTeam match)) (mset allMatches)"
  by (auto simp: relevantHistory_def)

theorem relevantHistory_strictly_earlier_witness:
  "date (processMatch sample_host overtime_match) = date (processMatch sample_host target_match) \<and>
   jlt (date (processMatch sample_host no_stats_match))
       (date (processMatch sample_host target_match)) \<and>
   processMatch sample_host no_stats_match \<in>
     set (relevantHistory (processMatch sample_host target_match)
       (processMatches sample_host
          [overtime_match, no_stats_match, other_teams_match, bad_score_match])) \<and>
   relevantHistory (processMatch sample_host target_match)
     (processMatches sample_host
        [overtime_match, no_stats_match, other_teams_match, bad_score_match]) =
     [processMatch sample_host no_stats_match]"
  using relevantHistory_strictly_earlier [of "processMatch sample_host no_stats_match"
      "processMatch sample_host target_match"
      "processMatches sample_host
         [overtime_match, no_stats_match, other_teams_match, bad_score_match]"]
  by (simp add: relevantHistory_def processMatches_def js_sort_def by_date_desc_def
      processMatch_sel overtime_match_def no_stats_match_def other_teams_match_def
      bad_score_match_def target_match_def plain_match_sel sample_dates sample_dates_more
      jsub_def jgt_def)

subsection \<open>Standard deviation\<close>

lemma getSD_single: "getSD [x] = NaN"
  by (cases x) (simp_all add: getSD_def getMean_def jsub_def inf_of_sign_def)

lemma sd15_by_history_size:
  "relevantHistory match allMatches = [] \<Longrightarrow>
     sd15 (generateMatchInsights match allMatches) = Fin 0"
  "length (relevantHistory match allMatches) = 1 \<Longrightarrow>
     sd15 (generateMatchInsights match allMatches) = NaN"
  by (auto simp: generateMatchInsights_def Let_def getSD_single length_Suc_conv
        split: prod.splits)

text \<open>
  C6. The claim: \<open>sd15\<close> is 0 whenever the relevant history has fewer than 2 matches. With
  no relevant match \<open>sd15\<close> is 0. With exactly one the guard \<open>totals15.length > 0\<close> lets
  \<open>getSD\<close> run on one value, which divides 0 by \<open>n - 1 = 0\<close>: \<open>sd15\<close> is \<open>NaN\<close>.
\<close>

theorem sd15_single_history_is_NaN:
  "relevantHistory (processMatch sample_host target_match) [] = [] \<and>
   sd15 (generateMatchInsights (processMatch sample_host target_match) []) = Fin 0 \<and>
   relevantHistory (processMatch sample_host target_match)
     [processMatch sample_host no_stats_match] = [processMatch sample_host no_stats_match] \<and>
   mean15 (generateMatchInsights (processMatch sample_host target_match)
     [processMatch sample_host no_stats_match]) = Fin 210 \<and>
   sd15 (generateMatchInsights (processMatch sample_host target_match)
     [processMatch sample_host no_stats_match]) = NaN"
  by (simp add: generateMatchInsights_def Let_def relevantHistory_def js_sort_def
      processMatch_sel no_stats_match_def target_match_def plain_match_sel
      sample_dates sample_dates_more getSD_single getMean_def p_eval split: prod.splits)

subsection \<open>Period lists\<close>

lemma q4Step_counts:
  "\<forall>m \<in> set ms. length (quarterlyTotals m) = 4 \<Longrightarrow>
   snd (foldl q4Step (a, n) ms) = n + length ms"
  by (induction ms arbitrary: a n) (simp_all add: q4Step_def Let_def)

lemma processMatch_lengths:
  "length (quarterlyTotals (processMatch h r)) = 4"
  "length (homeQScores (processMatch h r)) = 4"
  "length (awayQScores (processMatch h r)) = 4"
  by (simp_all add: processMatch_sel quarters_def)

lemma processMatch_missing_period:
  assumes "i < 4" "quarter_scores r (quarters ! i) = None"
  shows "quarterlyTotals (processMatch h r) ! i = Fin 0"
    "homeQScores (processMatch h r) ! i = Fin 0"
    "awayQScores (processMatch h r) ! i = Fin 0"
proof -
  have len: "length quarters = 4"
    by (simp add: quarters_def)
  show "quarterlyTotals (processMatch h r) ! i = Fin 0"
    "homeQScores (processMatch h r) ! i = Fin 0"
    "awayQScores (processMatch h r) ! i = Fin 0"
    using assms by (simp_all add: processMatch_sel len)
qed

lemma q4Step_sums:
  "\<forall>m \<in> set ms. length (quarterlyTotals m) = 4 \<Longrightarrow>
   fst (foldl q4Step (a, n) ms) = foldl (\<lambda>acc m. jadd acc (q4_diff m)) a ms"
  by (induction ms arbitrary: a n) (simp_all add: q4Step_def Let_def q4_diff_def)

lemma q4Step_processMatch:
  "q4Step acc (processMatch h r) = (jadd (fst acc) (q4_diff (processMatch h r)), snd acc + 1)"
  by (cases acc) (simp add: q4Step_def Let_def q4_diff_def processMatch_lengths)

lemma quarterlyTotals_period_total:
  "quarterlyTotals (processMatch h r) = map (period_total r) quarters"
  by (simp add: processMatch_sel period_total_def quarters_def split: option.splits)

lemma q4_diff_processMatch:
  "q4_diff (processMatch h r) =
     jsub (period_total r ''Q4'')
       (jdiv (jadd (jadd (period_total r ''Q1'') (period_total r ''Q2'')) (period_total r ''Q3''))
          (Fin 3))"
  by (simp add: q4_diff_def quarterlyTotals_period_total quarters_def)

lemma q4Trend_by_loop:
  "q4TrendValue (generateMatchInsights match allMatches) =
     (if 0 < snd (q4Loop (take 10 (relevantHistory match allMatches)))
      then jdiv (fst (q4Loop (take 10 (relevantHistory match allMatches))))
             (Fin (real (snd (q4Loop (take 10 (relevantHistory match allMatches))))))
      else Fin 0)"
  "q4Trend (generateMatchInsights match allMatches) =
     (if jlt (q4TrendValue (generateMatchInsights match allMatches)) (Fin (- 2))
      then ''Fade (-)''
      else if jgt (q4TrendValue (generateMatchInsights match allMatches)) (Fin 2)
      then ''High Intensity (+)'' else ''Neutral'')"
  by (simp_all add: generateMatchInsights_def Let_def split: prod.splits)

text \<open>
  C10. Every processed match returned by \<open>processMatches\<close> has \<open>quarterlyTotals\<close>,
  \<open>homeQScores\<close> and \<open>awayQScores\<close> of length 4. So, for a history of matches that
  \<open>processMatches\<close> returned, the Q4-trend loop of \<open>generateMatchInsights\<close> counts every one
  of the (at most 10) most recent relevant matches; and a period that the raw record lacks
  is the entry 0 in the three lists. Each of these matches adds to the accumulated
  difference its fourth-period total less the mean of its first three, where the total of
  a period that its raw record lacks is 0 (for a record without the fourth period it adds
  minus the mean of the first three); \<open>q4TrendValue\<close> is the sum of these contributions
  divided by the number of the matches, and 0 when there is none, and \<open>q4Trend\<close> is read
  off it.
\<close>

theorem period_lists_have_four_entries:
  "(\<forall>m \<in> set (processMatches h rawData).
      length (quarterlyTotals m) = 4 \<and> length (homeQScores m) = 4 \<and>
      length (awayQScores m) = 4) \<and>
   (set allMatches \<subseteq> set (processMatches h rawData) \<longrightarrow>
      snd (q4Loop (take 10 (relevantHistory match allMatches))) =
        length (take 10 (relevantHistory match allMatches))) \<and>
   (\<forall>i < 4. quarter_scores r (quarters ! i) = None \<longrightarrow>
      quarterlyTotals (processMatch h r) ! i = Fin 0 \<and>
      homeQScores (processMatch h r) ! i = Fin 0 \<and>
      awayQScores (processMatch h r) ! i = Fin 0) \<and>
   (set allMatches \<subseteq> set (processMatches h rawData) \<longrightarrow>
      fst (q4Loop (take 10 (relevantHistory match allMatches))) =
        foldl (\<lambda>acc m. jadd acc (q4_diff m)) (Fin 0)
          (take 10 (relevantHistory match allMatches)) \<and>
      q4TrendValue (generateMatchInsights match allMatches) =
        (if take 10 (relevantHistory match allMatches) = [] then Fin 0
         else jdiv (foldl (\<lambda>acc m. jadd acc (q4_diff m)) (Fin 0)
                      (take 10 (relevantHistory match allMatches)))
                (Fin (real (length (take 10 (relevantHistory match allMatches))))))) \<and>
   q4Trend (generateMatchInsights match allMatches) =
     (if jlt (q4TrendValue (generateMatchInsights match allMatches)) (Fin (- 2))
      then ''Fade (-)''
      else if jgt (q4TrendValue (generateMatchInsights match allMatches)) (Fin 2)
      then ''High Intensity (+)'' else ''Neutral'') \<and>
   q4Step acc (processMatch h r) =
     (jadd (fst acc) (q4_diff (processMatch h r)), snd acc + 1) \<and>
   quarterlyTotals (processMatch h r) = map (period_total r) quarters \<and>
   q4_diff (processMatch h r) =
     jsub (period_total r ''Q4'')
       (jdiv (jadd (jadd (period_total r ''Q1'') (period_total r ''Q2'')) (period_total r ''Q3''))
          (Fin 3)) \<and>
   (quarter_scores r q = None \<longrightarrow> period_total r q = Fin 0) \<and>
   (quarter_scores r ''Q4'' = None \<longrightarrow>
      q4_diff (processMatch h r) =
        jsub (Fin 0)
          (jdiv (jadd (jadd (period_total r ''Q1'') (period_total r ''Q2''))
                   (period_total r ''Q3'')) (Fin 3)))"
proof (intro conjI)
  show four: "\<forall>m \<in> set (processMatches h rawData).
      length (quarterlyTotals m) = 4 \<and> length (homeQScores m) = 4 \<and>
      length (awayQScores m) = 4"
    by (auto simp: set_processMatches processMatch_lengths)
  have all4: "\<forall>m \<in> set (take 10 (relevantHistory match allMatches)).
        length (quarterlyTotals m) = 4"
    if sub: "set allMatches \<subseteq> set (processMatches h rawData)"
  proof -
    have "set (take 10 (relevantHistory match allMatches)) \<subseteq> set allMatches"
      using set_take_subset [of 10 "relevantHistory match allMatches"]
      by (auto simp: relevantHistory_def)
    with sub four show ?thesis
      by blast
  qed
  show "set allMatches \<subseteq> set (processMatches h rawData) \<longrightarrow>
      snd (q4Loop (take 10 (relevantHistory match allMatches))) =
        length (take 10 (relevantHistory match allMatches))"
  proof
    assume sub: "set allMatches \<subseteq> set (processMatches h rawData)"
    from all4 [OF sub]
    show "snd (q4Loop (take 10 (relevantHistory match allMatches))) =
        length (take 10 (relevantHistory match allMatches))"
      unfolding q4Loop_def by (simp only: q4Step_counts add_0)
  qed
  show "\<forall>i < 4. quarter_scores r (quarters ! i) = None \<longrightarrow>
      quarterlyTotals (processMatch h r) ! i = Fin 0 \<and>
      homeQScores (processMatch h r) ! i = Fin 0 \<and>
      awayQScores (processMatch h r) ! i = Fin 0"
    by (simp add: processMatch_missing_period)
  show "set allMatches \<subseteq> set (processMatches h rawData) \<longrightarrow>
      fst (q4Loop (take 10 (relevantHistory match allMatches))) =
        foldl (\<lambda>acc m. jadd acc (q4_diff m)) (Fin 0)
          (take 10 (relevantHistory match allMatches)) \<and>
      q4TrendValue (generateMatchInsights match allMatches) =
        (if take 10 (relevantHistory match allMatches) = [] then Fin 0
         else jdiv (foldl (\<lambda>acc m. jadd acc (q4_diff m)) (Fin 0)
                      (take 10 (relevantHistory match allMatches)))
                (Fin (real (length (take 10 (relevantHistory match allMatches))))))"
  proof
    assume sub: "set allMatches \<subseteq> set (processMatches h rawData)"
    let ?l = "take 10 (relevantHistory match allMatches)"
    have n: "snd (q4Loop ?l) = length ?l"
      using all4 [OF sub] unfolding q4Loop_def by (simp only: q4Step_counts add_0)
    have s: "fst (q4Loop ?l) = foldl (\<lambda>acc m. jadd acc (q4_diff m)) (Fin 0) ?l"
      using all4 [OF sub] unfolding q4Loop_def by (rule q4Step_sums)
    have "q4TrendValue (generateMatchInsights match allMatches) =
        (if ?l = [] then Fin 0
         else jdiv (foldl (\<lambda>acc m. jadd acc (q4_diff m)) (Fin 0) ?l)
                (Fin (real (length ?l))))"
      unfolding q4Trend_by_loop(1) n s by simp
    with s show "fst (q4Loop ?l) = foldl (\<lambda>acc m. jadd acc (q4_diff m)) (Fin 0) ?l \<and>
      q4TrendValue (generateMatchInsights match allMatches) =
        (if ?l = [] then Fin 0
         else jdiv (foldl (\<lambda>acc m. jadd acc (q4_diff m)) (Fin 0) ?l)
                (Fin (real (length ?l))))"
      by (rule conjI)
  qed
  show "q4Trend (generateMatchInsights match allMatches) =
     (if jlt (q4TrendValue (generateMatchInsights match allMatches)) (Fin (- 2))
      then ''Fade (-)''
      else if jgt (q4TrendValue (generateMatchInsights match allMatches)) (Fin 2)
      then ''High Intensity (+)'' else ''Neutral'')"
    by (rule q4Trend_by_loop(2))
  show "q4Step acc (processMatch h r) =
     (jadd (fst acc) (q4_diff (processMatch h r)), snd acc + 1)"
    by (rule q4Step_processMatch)
  show "quarterlyTotals (processMatch h r) = map (period_total r) quarters"
    by (rule quarterlyTotals_period_total)
  show "q4_diff (processMatch h r) =
     jsub (period_total r ''Q4'')
       (jdiv (jadd (jadd (period_total r ''Q1'') (period_total r ''Q2'')) (period_total r ''Q3''))
          (Fin 3))"
    by (rule q4_diff_processMatch)
  show "quarter_scores r q = None \<longrightarrow> period_total r q = Fin 0"
    by (simp add: period_total_def)
  show "quarter_scores r ''Q4'' = None \<longrightarrow>
      q4_diff (processMatch h r) =
        jsub (Fin 0)
          (jdiv (jadd (jadd (period_total r ''Q1'') (period_total r ''Q2''))
                   (period_total r ''Q3'')) (Fin 3))"
    by (simp add: q4_diff_processMatch period_total_def)
qed

lemma trend_history:
  "relevantHistory (processMatch sample_host target_match)
     (processMatches sample_host [overtime_match, no_stats_match, target_match]) =
     [processMatch sample_host no_stats_match]"
  "relevantHistory (processMatch sample_host target_match)
     (processMatches sample_host [four_periods_match, no_q4_match, target_match]) =
     [processMatch sample_host no_q4_match, processMatch sample_host four_periods_match]"
  by (simp_all add: relevantHistory_def processMatches_def js_sort_def by_date_desc_def
      processMatch_sel overtime_match_def no_stats_match_def four_periods_match_def
      no_q4_match_def target_match_def plain_match_sel sample_dates sample_dates_more
      jsub_def jgt_def)

lemma trend_periods:
  "quarter_scores no_stats_match (quarters ! 3) = None"
  "quarter_scores no_q4_match ''Q4'' = None"
  "quarterlyTotals (processMatch sample_host no_stats_match) = [Fin 0, Fin 0, Fin 0, Fin 0]"
  "quarterlyTotals (processMatch sample_host no_q4_match) = [Fin 60, Fin 60, Fin 60, Fin 0]"
  "quarterlyTotals (processMatch sample_host four_periods_match) =
     [Fin 50, Fin 50, Fin 50, Fin 56]"
  by (simp_all add: processMatch_sel no_stats_match_def plain_match_sel no_q4_match_def
      four_periods_match_def quarters_def p_eval)

lemma trend_diffs:
  "q4_diff (processMatch sample_host no_q4_match) = Fin (- 60)"
  "q4_diff (processMatch sample_host four_periods_match) = Fin 6"
  by (simp_all add: q4_diff_def trend_periods jsub_def)

theorem period_lists_have_four_entries_witness:
  "set (processMatches sample_host [overtime_match, no_stats_match, target_match]) \<subseteq>
     set (processMatches sample_host [overtime_match, no_stats_match, target_match]) \<and>
   relevantHistory (processMatch sample_host target_match)
     (processMatches sample_host [overtime_match, no_stats_match, target_match]) =
     [processMatch sample_host no_stats_match] \<and>
   quarter_scores no_stats_match (quarters ! 3) = None \<and>
   quarterlyTotals (processMatch sample_host no_stats_match) = [Fin 0, Fin 0, Fin 0, Fin 0] \<and>
   snd (q4Loop (take 10 (relevantHistory (processMatch sample_host target_match)
      (processMatches sample_host [overtime_match, no_stats_match, target_match])))) = 1 \<and>
   relevantHistory (processMatch sample_host target_match)
     (processMatches sample_host [four_periods_match, no_q4_match, target_match]) =
     [processMatch sample_host no_q4_match, processMatch sample_host four_periods_match] \<and>
   quarter_scores no_q4_match ''Q4'' = None \<and>
   quarterlyTotals (processMatch sample_host no_q4_match) = [Fin 60, Fin 60, Fin 60, Fin 0] \<and>
   quarterlyTotals (processMatch sample_host four_periods_match) =
     [Fin 50, Fin 50, Fin 50, Fin 56] \<and>
   q4_diff (processMatch sample_host no_q4_match) = Fin (- 60) \<and>
   q4_diff (processMatch sample_host four_periods_match) = Fin 6 \<and>
   fst (q4Loop (take 10 (relevantHistory (processMatch sample_host target_match)
      (processMatches sample_host [four_periods_match, no_q4_match, target_match])))) =
     Fin (- 54) \<and>
   snd (q4Loop (take 10 (relevantHistory (processMatch sample_host target_match)
      (processMatches sample_host [four_periods_match, no_q4_match, target_match])))) = 2 \<and>
   q4TrendValue (generateMatchInsights (processMatch sample_host target_match)
      (processMatches sample_host [four_periods_match, no_q4_match, target_match])) =
     Fin (- 27) \<and>
   q4Trend (generateMatchInsights (processMatch sample_host target_match)
      (processMatches sample_host [four_periods_match, no_q4_match, target_match])) =
     ''Fade (-)''"
proof -
  note old = period_lists_have_four_entries [of sample_host
      "[overtime_match, no_stats_match, target_match]"
      "processMatches sample_host [overtime_match, no_stats_match, target_match]"
      "processMatch sample_host target_match" no_stats_match]
  note new = period_lists_have_four_entries [of sample_host
      "[four_periods_match, no_q4_match, target_match]"
      "processMatches sample_host [four_periods_match, no_q4_match, target_match]"
      "processMatch sample_host target_match" no_q4_match]
  note counted_old = old [THEN conjunct2, THEN conjunct1, THEN mp, OF subset_refl]
  note counted_new = new [THEN conjunct2, THEN conjunct1, THEN mp, OF subset_refl]
  note summed = new [THEN conjunct2, THEN conjunct2, THEN conjunct2, THEN conjunct1, THEN mp,
      OF subset_refl]
  note trend = new [THEN conjunct2, THEN conjunct2, THEN conjunct2, THEN conjunct2,
      THEN conjunct1]
  have v: "q4TrendValue (generateMatchInsights (processMatch sample_host target_match)
      (processMatches sample_host [four_periods_match, no_q4_match, target_match])) =
     Fin (- 27)"
    using summed by (simp only: trend_history) (simp add: trend_diffs)
  have t: "q4Trend (generateMatchInsights (processMatch sample_host target_match)
      (processMatches sample_host [four_periods_match, no_q4_match, target_match])) =
     ''Fade (-)''"
    unfolding trend v by simp
  have l: "fst (q4Loop (take 10 (relevantHistory (processMatch sample_host target_match)
      (processMatches sample_host [four_periods_match, no_q4_match, target_match])))) =
     Fin (- 54)"
    using summed by (simp only: trend_history) (simp add: trend_diffs)
  have n: "snd (q4Loop (take 10 (relevantHistory (processMatch sample_host target_match)
      (processMatches sample_host [four_periods_match, no_q4_match, target_match])))) = 2"
    using counted_new by (simp only: trend_history) simp
  have n0: "snd (q4Loop (take 10 (relevantHistory (processMatch sample_host target_match)
      (processMatches sample_host [overtime_match, no_stats_match, target_match])))) = 1"
    using counted_old by (simp only: trend_history) simp
  from subset_refl trend_history(1) trend_periods(1,3) n0 trend_history(2) trend_periods(2,4,5)
    trend_diffs l n v t
  show ?thesis
    by (intro conjI)
qed

subsection \<open>Backtest engine\<close>

lemma bet_wins_not_loses: "bet_wins b m \<Longrightarrow> \<not> bet_loses b m"
  using jlt_asym by (cases b) (auto simp: bet_wins_def bet_loses_def jgt_def)

lemma placeBet_settles:
  "wins (placeBet w t m b why) = wins t + (if bet_wins b m then 1 else 0)"
  "losses (placeBet w t m b why) = losses t + (if bet_loses b m then 1 else 0)"
  "pushes (placeBet w t m b why) =
     pushes t + (if \<not> bet_wins b m \<and> \<not> bet_loses b m then 1 else 0)"
  "profit (placeBet w t m b why) = settle_profit w (profit t) b m"
  "betsPlaced (placeBet w t m b why) = betsPlaced t + 1"
  "map pnl (historyLogs (placeBet w t m b why)) = map pnl (historyLogs t) @ [settled_pnl w b m]"
  "map result_log (historyLogs (placeBet w t m b why)) =
     map result_log (historyLogs t) @ [settled_result b m]"
  "map pick (historyLogs (placeBet w t m b why)) = map pick (historyLogs t) @ [b]"
  using bet_wins_not_loses [of b m]
  by (cases b; auto simp: placeBet_def Let_def bet_wins_def bet_loses_def picked_odds_def
        settled_pnl_def settle_profit_def settled_result_def)+

lemma betsOn_Cons:
  "betsOn h st (m # ms) =
     (case betType (decideBet h st m) of
        Some b \<Rightarrow> if shouldBet (decideBet h st m) then [(m, b)] else []
      | None \<Rightarrow> []) @ betsOn h st ms"
  by (simp add: betsOn_def)

lemma betsOn_Nil [simp]: "betsOn h st [] = []"
  by (simp add: betsOn_def)

lemma backtest_fold:
  "wins (foldl (backtestStep h st) t ms) =
     wins t + length (filter (\<lambda>(m, b). bet_wins b m) (betsOn h st ms))"
  "losses (foldl (backtestStep h st) t ms) =
     losses t + length (filter (\<lambda>(m, b). bet_loses b m) (betsOn h st ms))"
  "pushes (foldl (backtestStep h st) t ms) =
     pushes t + length (filter (\<lambda>(m, b). \<not> bet_wins b m \<and> \<not> bet_loses b m) (betsOn h st ms))"
  "profit (foldl (backtestStep h st) t ms) =
     foldl (\<lambda>acc (m, b). settle_profit (wager st) acc b m) (profit t) (betsOn h st ms)"
  "betsPlaced (foldl (backtestStep h st) t ms) = betsPlaced t + length (betsOn h st ms)"
  "map pnl (historyLogs (foldl (backtestStep h st) t ms)) =
     map pnl (historyLogs t) @ map (\<lambda>(m, b). settled_pnl (wager st) b m) (betsOn h st ms)"
  "map result_log (historyLogs (foldl (backtestStep h st) t ms)) =
     map result_log (historyLogs t) @ map (\<lambda>(m, b). settled_result b m) (betsOn h st ms)"
  "map pick (historyLogs (foldl (backtestStep h st) t ms)) =
     map pick (historyLogs t) @ map snd (betsOn h st ms)"
  by (induction ms arbitrary: t;
      simp add: betsOn_Cons backtestStep_def Let_def placeBet_settles split: option.splits)+

lemma backtest_tallies_add_up:
  "wins (calculateBacktestROI h st) + losses (calculateBacktestROI h st) +
     pushes (calculateBacktestROI h st) = totalBets (calculateBacktestROI h st)"
  "length (historyLogs (calculateBacktestROI h st)) = totalBets (calculateBacktestROI h st)"
proof -
  have step: "wins (backtestStep h st t m) + losses (backtestStep h st t m) +
      pushes (backtestStep h st t m) - (wins t + losses t + pushes t) =
      betsPlaced (backtestStep h st t m) - betsPlaced t \<and>
    wins t + losses t + pushes t \<le> wins (backtestStep h st t m) +
      losses (backtestStep h st t m) + pushes (backtestStep h st t m) \<and>
    betsPlaced t \<le> betsPlaced (backtestStep h st t m) \<and>
    length (historyLogs (backtestStep h st t m)) - length (historyLogs t) =
      betsPlaced (backtestStep h st t m) - betsPlaced t \<and>
    length (historyLogs t) \<le> length (historyLogs (backtestStep h st t m))" for t m
    by (simp add: backtestStep_def Let_def placeBet_def split: option.splits)
  have inv: "wins t + losses t + pushes t = betsPlaced t \<Longrightarrow>
      length (historyLogs t) = betsPlaced t \<Longrightarrow>
      wins (foldl (backtestStep h st) t ms) + losses (foldl (backtestStep h st) t ms) +
        pushes (foldl (backtestStep h st) t ms) = betsPlaced (foldl (backtestStep h st) t ms) \<and>
      length (historyLogs (foldl (backtestStep h st) t ms)) =
        betsPlaced (foldl (backtestStep h st) t ms)" for t ms
  proof (induction ms arbitrary: t)
    case Nil
    then show ?case by simp
  next
    case (Cons m ms)
    have "wins (backtestStep h st t m) + losses (backtestStep h st t m) +
        pushes (backtestStep h st t m) = betsPlaced (backtestStep h st t m)"
      "length (historyLogs (backtestStep h st t m)) = betsPlaced (backtestStep h st t m)"
      using step [of t m] Cons.prems by linarith+
    then show ?case
      using Cons.IH [of "backtestStep h st t m"] by simp
  qed
  show "wins (calculateBacktestROI h st) + losses (calculateBacktestROI h st) +
     pushes (calculateBacktestROI h st) = totalBets (calculateBacktestROI h st)"
    "length (historyLogs (calculateBacktestROI h st)) = totalBets (calculateBacktestROI h st)"
    using inv [of emptyTally "filteredMatches h st"]
    by (simp_all add: calculateBacktestROI_def Let_def totalBets_def emptyTally_def)
qed

lemma sample_dates_3:
  "Date_time sample_host (iso_date ''07.01.2025 19:00'') = Fin 20250107"
  by (simp_all add: sample_host_def iso_date_def parseInt_def is_ws_def is_digit_def
      digits_value_def)

lemma sim_state_sel:
  "backtestMatches (sim_state raw s) = processMatches sample_host raw"
  "wager (sim_state raw s) = Fin 100"
  "strategy (sim_state raw s) = s"
  "valueMargin (sim_state raw s) = Fin 5"
  "selectedTeam (sim_state raw s) = ''ALL''"
  "startDate (sim_state raw s) = []"
  "endDate (sim_state raw s) = []"
  "efficiencyThreshold (sim_state raw s) = Fin (93 / 2)"
  by (simp_all add: sim_state_def)

lemma backtest_run:
  "totalBets (calculateBacktestROI h st) = length (placedBets h st)"
  "wins (calculateBacktestROI h st) =
     length (filter (\<lambda>(m, b). bet_wins b m) (placedBets h st))"
  "losses (calculateBacktestROI h st) =
     length (filter (\<lambda>(m, b). bet_loses b m) (placedBets h st))"
  "pushes (calculateBacktestROI h st) =
     length (filter (\<lambda>(m, b). \<not> bet_wins b m \<and> \<not> bet_loses b m) (placedBets h st))"
  "profit (calculateBacktestROI h st) =
     foldl (\<lambda>acc (m, b). settle_profit (wager st) acc b m) (Fin 0) (placedBets h st)"
  "map pnl (historyLogs (calculateBacktestROI h st)) =
     map (\<lambda>(m, b). settled_pnl (wager st) b m) (placedBets h st)"
  "map result_log (historyLogs (calculateBacktestROI h st)) =
     map (\<lambda>(m, b). settled_result b m) (placedBets h st)"
  by (simp_all add: calculateBacktestROI_def Let_def totalBets_def backtest_fold placedBets_def
      emptyTally_def)

lemma backtest_roi:
  "roi (calculateBacktestROI h st) =
     (if placedBets h st = [] then Fin 0
      else dmul (ddiv (profit (calculateBacktestROI h st))
                      (dmul (Fin (real (length (placedBets h st)))) (wager st))) (Fin 100))"
  by (simp add: calculateBacktestROI_def Let_def backtest_fold placedBets_def emptyTally_def)

lemma one_win_one_loss:
  assumes "v = settle_profit (Fin 100) (settle_profit (Fin 100) (Fin 0) b1 m1) b2 m2"
    and "bet_wins b1 m1 \<and> picked_odds b1 m1 = rd 1.91 \<and> bet_loses b2 m2 \<or>
         bet_loses b1 m1 \<and> bet_wins b2 m2 \<and> picked_odds b2 m2 = rd 1.91"
  shows "v = Fin (- 9 - 1 / 2 ^ 46)"
  using assms(2) bet_wins_not_loses [of b1 m1] bet_wins_not_loses [of b2 m2]
  unfolding assms(1) settle_profit_def
  by (auto simp: double_eval)

text \<open>
  C2 (as amended). For every backtest run: the bets are settled one by one; an Over bet
  wins exactly when \<open>totalScore > line\<close> and loses exactly when \<open>totalScore < line\<close>, an
  Under bet the other way round, and no bet both wins and loses; the run's wins, losses and
  pushes count the winning, the losing and the remaining bets; a win adds
  \<open>wager * (odds of the picked side - 1)\<close> to the profit, a loss subtracts the wager and a
  push (a bet whose total equals the line is one) leaves the profit as it is; the ROI is
  \<open>profit / (bets * wager) * 100\<close>, and 0 for a run without bets. The arithmetic is that of
  doubles: with a wager of 100, one win at odds 1.91 and one loss, in either order, give the
  profit \<open>-9 - 2^-46\<close> (-9.000000000000014) and the ROI \<open>-4.5 - 2^-47\<close> (-4.500000000000007),
  which are -9 and -4.5 up to rounding.
\<close>

theorem backtest_settlement:
  "totalBets (calculateBacktestROI h st) = length (placedBets h st) \<and>
   wins (calculateBacktestROI h st) =
     length (filter (\<lambda>(m, b). bet_wins b m) (placedBets h st)) \<and>
   losses (calculateBacktestROI h st) =
     length (filter (\<lambda>(m, b). bet_loses b m) (placedBets h st)) \<and>
   pushes (calculateBacktestROI h st) =
     length (filter (\<lambda>(m, b). \<not> bet_wins b m \<and> \<not> bet_loses b m) (placedBets h st)) \<and>
   profit (calculateBacktestROI h st) =
     foldl (\<lambda>acc (m, b). settle_profit (wager st) acc b m) (Fin 0) (placedBets h st) \<and>
   map pnl (historyLogs (calculateBacktestROI h st)) =
     map (\<lambda>(m, b). settled_pnl (wager st) b m) (placedBets h st) \<and>
   map result_log (historyLogs (calculateBacktestROI h st)) =
     map (\<lambda>(m, b). settled_result b m) (placedBets h st) \<and>
   roi (calculateBacktestROI h st) =
     (if placedBets h st = [] then Fin 0
      else dmul (ddiv (profit (calculateBacktestROI h st))
                      (dmul (Fin (real (length (placedBets h st)))) (wager st))) (Fin 100)) \<and>
   \<not> (bet_wins b m \<and> bet_loses b m) \<and>
   (totalScore m = line m \<longrightarrow>
      \<not> bet_wins b m \<and> \<not> bet_loses b m \<and> settled_pnl w b m = Fin 0 \<and>
      settle_profit w acc b m = acc) \<and>
   (wager st = Fin 100 \<and>
    (\<exists>x y. placedBets h st = [x, y] \<and>
       (bet_wins (snd x) (fst x) \<and> picked_odds (snd x) (fst x) = rd 1.91 \<and>
          bet_loses (snd y) (fst y) \<or>
        bet_loses (snd x) (fst x) \<and>
          bet_wins (snd y) (fst y) \<and> picked_odds (snd y) (fst y) = rd 1.91)) \<longrightarrow>
      profit (calculateBacktestROI h st) = Fin (- 9 - 1 / 2 ^ 46) \<and>
      roi (calculateBacktestROI h st) = Fin (- 4.5 - 1 / 2 ^ 47) \<and>
      \<bar>(- 9 - 1 / 2 ^ 46) - (- 9)\<bar> < (1 / 10 ^ 13 :: real) \<and>
      \<bar>(- 4.5 - 1 / 2 ^ 47) - (- 4.5)\<bar> < (1 / 10 ^ 13 :: real))"
proof -
  let ?r = "calculateBacktestROI h st"
  let ?bets = "placedBets h st"
  have tallies: "totalBets ?r = length ?bets"
    "wins ?r = length (filter (\<lambda>(m, b). bet_wins b m) ?bets)"
    "losses ?r = length (filter (\<lambda>(m, b). bet_loses b m) ?bets)"
    "pushes ?r = length (filter (\<lambda>(m, b). \<not> bet_wins b m \<and> \<not> bet_loses b m) ?bets)"
    "profit ?r = foldl (\<lambda>acc (m, b). settle_profit (wager st) acc b m) (Fin 0) ?bets"
    "map pnl (historyLogs ?r) = map (\<lambda>(m, b). settled_pnl (wager st) b m) ?bets"
    "map result_log (historyLogs ?r) = map (\<lambda>(m, b). settled_result b m) ?bets"
    by (simp_all add: backtest_run)
  have roi: "roi ?r =
     (if ?bets = [] then Fin 0
      else dmul (ddiv (profit ?r) (dmul (Fin (real (length ?bets))) (wager st))) (Fin 100))"
    by (rule backtest_roi)
  have excl: "\<not> (bet_wins b m \<and> bet_loses b m)"
    using bet_wins_not_loses by blast
  have push: "totalScore m = line m \<longrightarrow>
      \<not> bet_wins b m \<and> \<not> bet_loses b m \<and> settled_pnl w b m = Fin 0 \<and>
      settle_profit w acc b m = acc"
    by (cases b)
       (simp_all add: bet_wins_def bet_loses_def settled_pnl_def settle_profit_def jgt_def)
  have example: "wager st = Fin 100 \<and>
    (\<exists>x y. ?bets = [x, y] \<and>
       (bet_wins (snd x) (fst x) \<and> picked_odds (snd x) (fst x) = rd 1.91 \<and>
          bet_loses (snd y) (fst y) \<or>
        bet_loses (snd x) (fst x) \<and>
          bet_wins (snd y) (fst y) \<and> picked_odds (snd y) (fst y) = rd 1.91)) \<longrightarrow>
      profit ?r = Fin (- 9 - 1 / 2 ^ 46) \<and> roi ?r = Fin (- 4.5 - 1 / 2 ^ 47) \<and>
      \<bar>(- 9 - 1 / 2 ^ 46) - (- 9)\<bar> < (1 / 10 ^ 13 :: real) \<and>
      \<bar>(- 4.5 - 1 / 2 ^ 47) - (- 4.5)\<bar> < (1 / 10 ^ 13 :: real)"
  proof
    assume a: "wager st = Fin 100 \<and>
      (\<exists>x y. ?bets = [x, y] \<and>
       (bet_wins (snd x) (fst x) \<and> picked_odds (snd x) (fst x) = rd 1.91 \<and>
          bet_loses (snd y) (fst y) \<or>
        bet_loses (snd x) (fst x) \<and>
          bet_wins (snd y) (fst y) \<and> picked_odds (snd y) (fst y) = rd 1.91))"
    then obtain x y where xy: "?bets = [x, y]" and
      c: "bet_wins (snd x) (fst x) \<and> picked_odds (snd x) (fst x) = rd 1.91 \<and>
            bet_loses (snd y) (fst y) \<or>
          bet_loses (snd x) (fst x) \<and>
            bet_wins (snd y) (fst y) \<and> picked_odds (snd y) (fst y) = rd 1.91"
      by blast
    from a have w: "wager st = Fin 100" by simp
    have "profit ?r = settle_profit (Fin 100) (settle_profit (Fin 100) (Fin 0) (snd x) (fst x))
        (snd y) (fst y)"
      by (simp add: tallies(5) xy w split: prod.splits)
    then have p: "profit ?r = Fin (- 9 - 1 / 2 ^ 46)"
      using c by (rule one_win_one_loss)
    have r: "roi ?r = Fin (- 4.5 - 1 / 2 ^ 47)"
      unfolding roi p xy w by (simp add: double_eval)
    show "profit ?r = Fin (- 9 - 1 / 2 ^ 46) \<and> roi ?r = Fin (- 4.5 - 1 / 2 ^ 47) \<and>
      \<bar>(- 9 - 1 / 2 ^ 46) - (- 9)\<bar> < (1 / 10 ^ 13 :: real) \<and>
      \<bar>(- 4.5 - 1 / 2 ^ 47) - (- 4.5)\<bar> < (1 / 10 ^ 13 :: real)"
      using p r by simp
  qed
  from tallies roi excl push example show ?thesis
    by (intro conjI)
qed

lemmas sample_eval =
  processMatches_def js_sort_def by_date_desc_def processMatch_sel plain_match_sel
  sample_dates sample_dates_more sample_dates_3 jsub_def jgt_def p_eval

lemma two_bets:
  "placedBets sample_host (sim_state [over_hits_match, no_stats_match] ALL_OVER) =
     [(processMatch sample_host no_stats_match, BetOver),
      (processMatch sample_host over_hits_match, BetOver)]"
  by (simp add: placedBets_def betsOn_def filteredMatches_def sim_state_sel decideBet_def
      over_hits_match_def no_stats_match_def sample_eval)

lemma one_push:
  "placedBets sample_host (sim_state [overtime_match] ALL_UNDER) =
     [(processMatch sample_host overtime_match, BetUnder)]"
  by (simp add: placedBets_def betsOn_def filteredMatches_def sim_state_sel decideBet_def
      overtime_match_def sample_eval)

theorem backtest_settlement_witness:
  "placedBets sample_host (sim_state [over_hits_match, no_stats_match] ALL_OVER) =
     [(processMatch sample_host no_stats_match, BetOver),
      (processMatch sample_host over_hits_match, BetOver)] \<and>
   bet_loses BetOver (processMatch sample_host no_stats_match) \<and>
   bet_wins BetOver (processMatch sample_host over_hits_match) \<and>
   picked_odds BetOver (processMatch sample_host over_hits_match) = rd 1.91 \<and>
   wins (calculateBacktestROI sample_host
           (sim_state [over_hits_match, no_stats_match] ALL_OVER)) = 1 \<and>
   losses (calculateBacktestROI sample_host
           (sim_state [over_hits_match, no_stats_match] ALL_OVER)) = 1 \<and>
   pushes (calculateBacktestROI sample_host
           (sim_state [over_hits_match, no_stats_match] ALL_OVER)) = 0 \<and>
   profit (calculateBacktestROI sample_host
           (sim_state [over_hits_match, no_stats_match] ALL_OVER)) = Fin (- 9 - 1 / 2 ^ 46) \<and>
   roi (calculateBacktestROI sample_host
           (sim_state [over_hits_match, no_stats_match] ALL_OVER)) = Fin (- 4.5 - 1 / 2 ^ 47) \<and>
   totalScore (processMatch sample_host overtime_match) =
     line (processMatch sample_host overtime_match) \<and>
   settled_pnl (Fin 100) BetUnder (processMatch sample_host overtime_match) = Fin 0 \<and>
   settle_profit (Fin 100) (Fin 7) BetUnder (processMatch sample_host overtime_match) = Fin 7 \<and>
   pushes (calculateBacktestROI sample_host (sim_state [overtime_match] ALL_UNDER)) = 1 \<and>
   wins (calculateBacktestROI sample_host (sim_state [overtime_match] ALL_UNDER)) = 0 \<and>
   losses (calculateBacktestROI sample_host (sim_state [overtime_match] ALL_UNDER)) = 0 \<and>
   profit (calculateBacktestROI sample_host (sim_state [overtime_match] ALL_UNDER)) = Fin 0 \<and>
   roi (calculateBacktestROI sample_host (sim_state [overtime_match] ALL_UNDER)) = Fin 0"
  using
    backtest_settlement [of sample_host "sim_state [over_hits_match, no_stats_match] ALL_OVER"
      BetUnder "processMatch sample_host overtime_match" "Fin 100" "Fin 7"]
    backtest_settlement [of sample_host "sim_state [overtime_match] ALL_UNDER"
      BetUnder "processMatch sample_host overtime_match" "Fin 100" "Fin 7"]
  by (simp only: two_bets one_push)
     (simp add: bet_wins_def bet_loses_def picked_odds_def settled_pnl_def settle_profit_def
      sim_state_sel over_hits_match_def no_stats_match_def overtime_match_def
      processMatch_sel plain_match_sel p_eval jgt_def double_eval)

text \<open>
  C2, the gap. The claim's example gives the profit and the ROI as -9 and -4.5. The run
  computes them in doubles: 1.91 is the double just below it, \<open>1.91 - 1\<close> and the product
  with 100 are rounded (to 90.99999999999999), and the run of one loss and one win at the
  default price 1.91 with a wager of 100 returns the profit \<open>-9 - 2^-46\<close> and the ROI
  \<open>-4.5 - 2^-47\<close>, neither of which is the value named by the claim.
\<close>

theorem one_win_one_loss_in_doubles:
  "wager (sim_state [over_hits_match, no_stats_match] ALL_OVER) = Fin 100 \<and>
   overOdds (processMatch sample_host over_hits_match) = rd 1.91 \<and>
   rd 1.91 = Fin (8601875288277647 / 4503599627370496) \<and>
   wins (calculateBacktestROI sample_host
           (sim_state [over_hits_match, no_stats_match] ALL_OVER)) = 1 \<and>
   losses (calculateBacktestROI sample_host
           (sim_state [over_hits_match, no_stats_match] ALL_OVER)) = 1 \<and>
   totalBets (calculateBacktestROI sample_host
           (sim_state [over_hits_match, no_stats_match] ALL_OVER)) = 2 \<and>
   profit (calculateBacktestROI sample_host
           (sim_state [over_hits_match, no_stats_match] ALL_OVER)) = Fin (- 9 - 1 / 2 ^ 46) \<and>
   profit (calculateBacktestROI sample_host
           (sim_state [over_hits_match, no_stats_match] ALL_OVER)) \<noteq> Fin (- 9) \<and>
   roi (calculateBacktestROI sample_host
           (sim_state [over_hits_match, no_stats_match] ALL_OVER)) = Fin (- 4.5 - 1 / 2 ^ 47) \<and>
   roi (calculateBacktestROI sample_host
           (sim_state [over_hits_match, no_stats_match] ALL_OVER)) \<noteq> Fin (- 4.5)"
  by (simp only: backtest_run backtest_roi two_bets)
     (simp add: bet_wins_def bet_loses_def picked_odds_def settle_profit_def
      sim_state_sel over_hits_match_def no_stats_match_def
      processMatch_sel plain_match_sel p_eval jgt_def double_eval)

lemma no_overlap_for_margin:
  "0 \<le> c \<Longrightarrow> jlt l (jsub a (Fin c)) \<Longrightarrow> \<not> jgt l (jadd a (Fin c))"
  by (cases a; cases l) (auto simp: jsub_def jgt_def)

text \<open>
  C3 (as amended). In the league-average-reversion strategy the league average is the
  average total of the whole active dataset \<open>backtestMatches\<close> (230 for an empty one), not
  narrowed by the team and date filters of the run. For each match: if
  \<open>line > average + margin\<close> the bet is Under; otherwise, if \<open>line < average - margin\<close> the bet
  is Over; otherwise no bet is placed. For a margin that is not negative the two conditions
  never hold together. With the average 230 and the margin 5, the line 236 gives an Under
  bet, the line 224 an Over bet and the line 230 no bet.
\<close>

theorem reversion_strategy:
  assumes "strategy st = LEAGUE_AVG_REVERSION"
  shows "leagueAvg st =
      (if backtestMatches st = [] then Fin 230 else averageTotal (backtestMatches st)) \<and>
    (jgt (line m) (jadd (leagueAvg st) (valueMargin st)) \<longrightarrow>
       betsOn h st [m] = [(m, BetUnder)] \<and>
       betsPlaced (backtestStep h st t m) = betsPlaced t + 1 \<and>
       map pick (historyLogs (backtestStep h st t m)) = map pick (historyLogs t) @ [BetUnder]) \<and>
    (\<not> jgt (line m) (jadd (leagueAvg st) (valueMargin st)) \<and>
     jlt (line m) (jsub (leagueAvg st) (valueMargin st)) \<longrightarrow>
       betsOn h st [m] = [(m, BetOver)] \<and>
       betsPlaced (backtestStep h st t m) = betsPlaced t + 1 \<and>
       map pick (historyLogs (backtestStep h st t m)) = map pick (historyLogs t) @ [BetOver]) \<and>
    (\<not> jgt (line m) (jadd (leagueAvg st) (valueMargin st)) \<and>
     \<not> jlt (line m) (jsub (leagueAvg st) (valueMargin st)) \<longrightarrow>
       betsOn h st [m] = [] \<and> backtestStep h st t m = t) \<and>
    (valueMargin st = Fin c \<and> 0 \<le> c \<and> jlt (line m) (jsub (leagueAvg st) (valueMargin st)) \<longrightarrow>
       betsOn h st [m] = [(m, BetOver)]) \<and>
    (leagueAvg st = Fin 230 \<and> valueMargin st = Fin 5 \<longrightarrow>
       (line m = Fin 236 \<longrightarrow> betsOn h st [m] = [(m, BetUnder)]) \<and>
       (line m = Fin 224 \<longrightarrow> betsOn h st [m] = [(m, BetOver)]) \<and>
       (line m = Fin 230 \<longrightarrow> betsOn h st [m] = []))"
proof -
  have avg: "leagueAvg st =
      (if backtestMatches st = [] then Fin 230 else averageTotal (backtestMatches st))"
    by (simp add: leagueAvg_def leagueTotal_def averageTotal_def)
  have under: "jgt (line m) (jadd (leagueAvg st) (valueMargin st)) \<longrightarrow>
       betsOn h st [m] = [(m, BetUnder)] \<and>
       betsPlaced (backtestStep h st t m) = betsPlaced t + 1 \<and>
       map pick (historyLogs (backtestStep h st t m)) = map pick (historyLogs t) @ [BetUnder]"
    using assms
    by (simp add: betsOn_def backtestStep_def decideBet_def Let_def placeBet_settles)
  have over: "\<not> jgt (line m) (jadd (leagueAvg st) (valueMargin st)) \<and>
     jlt (line m) (jsub (leagueAvg st) (valueMargin st)) \<longrightarrow>
       betsOn h st [m] = [(m, BetOver)] \<and>
       betsPlaced (backtestStep h st t m) = betsPlaced t + 1 \<and>
       map pick (historyLogs (backtestStep h st t m)) = map pick (historyLogs t) @ [BetOver]"
    using assms
    by (simp add: betsOn_def backtestStep_def decideBet_def Let_def placeBet_settles)
  have none: "\<not> jgt (line m) (jadd (leagueAvg st) (valueMargin st)) \<and>
     \<not> jlt (line m) (jsub (leagueAvg st) (valueMargin st)) \<longrightarrow>
       betsOn h st [m] = [] \<and> backtestStep h st t m = t"
    using assms
    by (simp add: betsOn_def backtestStep_def decideBet_def Let_def noSignal_def)
  have margin: "valueMargin st = Fin c \<and> 0 \<le> c \<and>
      jlt (line m) (jsub (leagueAvg st) (valueMargin st)) \<longrightarrow>
       betsOn h st [m] = [(m, BetOver)]"
    using over no_overlap_for_margin [of c "line m" "leagueAvg st"] by auto
  have example: "leagueAvg st = Fin 230 \<and> valueMargin st = Fin 5 \<longrightarrow>
       (line m = Fin 236 \<longrightarrow> betsOn h st [m] = [(m, BetUnder)]) \<and>
       (line m = Fin 224 \<longrightarrow> betsOn h st [m] = [(m, BetOver)]) \<and>
       (line m = Fin 230 \<longrightarrow> betsOn h st [m] = [])"
    using under over none by (auto simp: jgt_def jsub_def)
  from avg under over none margin example show ?thesis
    by (intro conjI)
qed

lemma reversion_state_sel:
  "backtestMatches reversion_state =
     processMatches sample_host [line_236_match, line_224_match, line_230_match]"
  "strategy reversion_state = LEAGUE_AVG_REVERSION"
  "valueMargin reversion_state = Fin 5"
  "selectedTeam reversion_state = ''ALL''"
  "startDate reversion_state = []"
  "endDate reversion_state = []"
  by (simp_all add: reversion_state_def sim_state_sel)

lemma reversion_state_sorted:
  "processMatches sample_host [line_236_match, line_224_match, line_230_match] =
     [processMatch sample_host line_230_match, processMatch sample_host line_224_match,
      processMatch sample_host line_236_match]"
  by (simp add: line_236_match_def line_224_match_def line_230_match_def sample_eval)

lemma reversion_state_avg: "leagueAvg reversion_state = Fin 230"
  by (simp add: leagueAvg_def leagueTotal_def reversion_state_sel reversion_state_sorted)
     (simp add: line_236_match_def line_224_match_def line_230_match_def processMatch_sel
        plain_match_sel p_eval)

lemma reversion_lines:
  "line (processMatch sample_host line_236_match) = Fin 236"
  "line (processMatch sample_host line_224_match) = Fin 224"
  "line (processMatch sample_host line_230_match) = Fin 230"
  by (simp_all add: line_236_match_def line_224_match_def line_230_match_def processMatch_sel
      plain_match_sel)

theorem reversion_strategy_witness:
  "strategy reversion_state = LEAGUE_AVG_REVERSION \<and>
   leagueAvg reversion_state = Fin 230 \<and>
   valueMargin reversion_state = Fin 5 \<and>
   line (processMatch sample_host line_236_match) = Fin 236 \<and>
   betsOn sample_host reversion_state [processMatch sample_host line_236_match] =
     [(processMatch sample_host line_236_match, BetUnder)] \<and>
   line (processMatch sample_host line_224_match) = Fin 224 \<and>
   betsOn sample_host reversion_state [processMatch sample_host line_224_match] =
     [(processMatch sample_host line_224_match, BetOver)] \<and>
   line (processMatch sample_host line_230_match) = Fin 230 \<and>
   betsOn sample_host reversion_state [processMatch sample_host line_230_match] = [] \<and>
   backtestStep sample_host reversion_state emptyTally (processMatch sample_host line_230_match) =
     emptyTally"
  using
    reversion_strategy [of reversion_state "processMatch sample_host line_236_match" sample_host
      emptyTally 5]
    reversion_strategy [of reversion_state "processMatch sample_host line_224_match" sample_host
      emptyTally 5]
    reversion_strategy [of reversion_state "processMatch sample_host line_230_match" sample_host
      emptyTally 5]
  by (simp add: reversion_state_sel reversion_state_avg reversion_lines jgt_def jsub_def)

lemma celtics_only_state_sel:
  "backtestMatches celtics_only_state =
     processMatches sample_host [low_total_match, high_total_match]"
  "strategy celtics_only_state = LEAGUE_AVG_REVERSION"
  "valueMargin celtics_only_state = Fin 5"
  "selectedTeam celtics_only_state = ''Boston Celtics''"
  "startDate celtics_only_state = []"
  "endDate celtics_only_state = []"
  by (simp_all add: celtics_only_state_def sim_state_sel)

lemma celtics_only_state_sorted:
  "processMatches sample_host [low_total_match, high_total_match] =
     [processMatch sample_host low_total_match, processMatch sample_host high_total_match]"
  by (simp add: low_total_match_def high_total_match_def sample_eval)

lemma celtics_only_filtered:
  "filteredMatches sample_host celtics_only_state = [processMatch sample_host low_total_match]"
  by (simp add: filteredMatches_def celtics_only_state_sel celtics_only_state_sorted)
     (simp add: low_total_match_def high_total_match_def js_sort_def processMatch_sel
        plain_match_sel)

lemma celtics_only_avg: "leagueAvg celtics_only_state = Fin 230"
  by (simp add: leagueAvg_def leagueTotal_def celtics_only_state_sel celtics_only_state_sorted)
     (simp add: low_total_match_def high_total_match_def processMatch_sel plain_match_sel p_eval)

text \<open>
  The claim as stated takes the average over the filtered dataset. With the team filter set
  to one team the run has one match, of total 200 and line 212; the average of the filtered
  matches is 200 and \<open>212 > 200 + 5\<close> would make the bet Under, but the code's average over
  the whole dataset is 230 and, since \<open>212 < 230 - 5\<close>, the bet is Over.
\<close>

theorem league_average_ignores_filters:
  "filteredMatches sample_host celtics_only_state = [processMatch sample_host low_total_match] \<and>
   averageTotal (filteredMatches sample_host celtics_only_state) = Fin 200 \<and>
   leagueAvg celtics_only_state = Fin 230 \<and>
   valueMargin celtics_only_state = Fin 5 \<and>
   line (processMatch sample_host low_total_match) = Fin 212 \<and>
   jgt (line (processMatch sample_host low_total_match))
     (jadd (averageTotal (filteredMatches sample_host celtics_only_state))
           (valueMargin celtics_only_state)) \<and>
   betsOn sample_host celtics_only_state [processMatch sample_host low_total_match] =
     [(processMatch sample_host low_total_match, BetOver)]"
  by (simp add: celtics_only_filtered celtics_only_avg celtics_only_state_sel averageTotal_def
      betsOn_def decideBet_def)
     (simp add: low_total_match_def processMatch_sel plain_match_sel p_eval jgt_def jsub_def)



lemma foldl_jadd_snoc: "foldl jadd a (xs @ [x]) = jadd (foldl jadd a xs) x"
  by simp













end
